theory Spec2Isabelle
  imports Complex_Main "HOL-Library.Code_Target_Nat"
begin

section \<open>Python strings\<close>

text \<open>
  A Python \<open>str\<close> is a sequence of Unicode code points. The sources compare cells with
  the en-dash (U+2013) and remove the non-breaking space (U+00A0), so a string is modelled as
  the list of its code points; \<open>ustr\<close> turns an ASCII literal into that list.
\<close>

type_synonym pystr = "nat list"

definition ustr :: "string \<Rightarrow> pystr" where
  "ustr s = map of_char s"

text \<open>The code points that \<open>str.isspace()\<close> accepts and \<open>str.strip()\<close> removes.\<close>

definition isspace :: "nat \<Rightarrow> bool" where
  "isspace c \<longleftrightarrow>
     (9 \<le> c \<and> c \<le> 13) \<or> (28 \<le> c \<and> c \<le> 32) \<or> c = 133 \<or> c = 160 \<or> c = 5760 \<or>
     (8192 \<le> c \<and> c \<le> 8202) \<or> c = 8232 \<or> c = 8233 \<or> c = 8239 \<or> c = 8287 \<or> c = 12288"

definition strip :: "pystr \<Rightarrow> pystr" where
  "strip s = rev (dropWhile isspace (rev (dropWhile isspace s)))"

text \<open>\<open>s.replace(c, '')\<close> for a one-character pattern \<open>c\<close>.\<close>

definition replace_char :: "nat \<Rightarrow> pystr \<Rightarrow> pystr" where
  "replace_char c s = filter (\<lambda>x. x \<noteq> c) s"

definition startswith :: "pystr \<Rightarrow> nat \<Rightarrow> bool" where
  "startswith s c = (case s of [] \<Rightarrow> False | x # _ \<Rightarrow> x = c)"

definition endswith :: "pystr \<Rightarrow> nat \<Rightarrow> bool" where
  "endswith s c = (case rev s of [] \<Rightarrow> False | x # _ \<Rightarrow> x = c)"

text \<open>The slice \<open>s[1:-1]\<close>; on a string of one character it is empty.\<close>

definition slice_1_m1 :: "pystr \<Rightarrow> pystr" where
  "slice_1_m1 s = butlast (tl s)"

text \<open>
  \<open>str.lower()\<close> on the ASCII letters. Other code points are left as they are: the sources
  compare lowered text only with ASCII literals (\<open>nan\<close> and the keyword lists). Outside
  ASCII only U+0130 and U+212A lower to text with an ASCII letter (\<open>i\<close> followed by a
  combining dot, and \<open>k\<close>), and neither can complete one of those literals.
\<close>

definition lower_cp :: "nat \<Rightarrow> nat" where
  "lower_cp c = (if 65 \<le> c \<and> c \<le> 90 then c + 32 else c)"

definition lower :: "pystr \<Rightarrow> pystr" where
  "lower s = map lower_cp s"

text \<open>\<open>k in t\<close> on strings: \<open>k\<close> occurs in \<open>t\<close> as a contiguous run.\<close>

fun starts :: "pystr \<Rightarrow> pystr \<Rightarrow> bool" where
  "starts [] t = True"
| "starts (k # ks) [] = False"
| "starts (k # ks) (c # cs) = (k = c \<and> starts ks cs)"

fun str_in :: "pystr \<Rightarrow> pystr \<Rightarrow> bool" where
  "str_in k [] = (k = [])"
| "str_in k (c # cs) = (starts k (c # cs) \<or> str_in k cs)"

section \<open>Python values and the builtin \<open>float\<close>\<close>

text \<open>
  A float is kept as the exact rational its decimal text denotes, or a negative zero, or an
  infinity (the flag says negative), or NaN. \<open>FVal 0\<close> is the positive zero. Overflow to
  an infinity and underflow to a zero are modelled (\<open>make_float\<close>); the rounding of the other
  values to binary64 is not.
\<close>

datatype pyfloat = FVal rat | FNegZero | FInf bool | FNaN

text \<open>The unary minus of a float, which is also \<open>x * -1\<close>.\<close>

fun fneg :: "pyfloat \<Rightarrow> pyfloat" where
  "fneg (FVal r) = (if r = 0 then FNegZero else FVal (- r))"
| "fneg FNegZero = FVal 0"
| "fneg (FInf b) = FInf (\<not> b)"
| "fneg FNaN = FNaN"

datatype py_error = ValueError | TypeError

datatype pyval = PNone | PInt int | PFloat pyfloat | PStr pystr

text \<open>
  \<open>float(s)\<close> does not trim with \<open>str.strip()\<close>. It first rewrites the string: a code point
  below 127 is kept, a whitespace code point from 127 on becomes a space, a decimal digit of
  any script becomes the ASCII digit of the same value, anything else becomes \<open>?\<close>. Then it
  skips the characters \<open>\t \n \v \f \r\<close> and the space at both ends. So the separators
  U+001C to U+001F, which \<open>str.strip()\<close> removes, are not ignored by \<open>float\<close>.
\<close>

definition float_space :: "nat \<Rightarrow> bool" where
  "float_space c \<longleftrightarrow> (9 \<le> c \<and> c \<le> 13) \<or> c = 32 \<or> (127 \<le> c \<and> isspace c)"

definition float_strip :: "pystr \<Rightarrow> pystr" where
  "float_strip s = rev (dropWhile float_space (rev (dropWhile float_space s)))"

text \<open>
  The code point of the digit zero in each decimal numeral system outside ASCII (Unicode 14,
  the character database of Python 3.11); the ten digits of a system are consecutive.
\<close>

definition decimal_zeros :: "nat list" where
  "decimal_zeros =
     [1632, 1776, 1984, 2406, 2534, 2662, 2790, 2918, 3046, 3174, 3302, 3430, 3558, 3664,
      3792, 3872, 4160, 4240, 6112, 6160, 6470, 6608, 6784, 6800, 6992, 7088, 7232, 7248,
      42528, 43216, 43264, 43472, 43504, 43600, 44016, 65296, 66720, 68912, 69734, 69872,
      69942, 70096, 70384, 70736, 70864, 71248, 71360, 71472, 71904, 72016, 72784, 73040,
      73120, 92768, 92864, 93008, 120782, 120792, 120802, 120812, 120822, 123200, 123632,
      125264, 130032]"

text \<open>The value of a code point as a decimal digit, if it is one.\<close>

definition decimal_digit :: "nat \<Rightarrow> nat option" where
  "decimal_digit c =
     (if c < 127 then (if 48 \<le> c \<and> c \<le> 57 then Some (c - 48) else None)
      else map_option (\<lambda>z. c - z) (find (\<lambda>z. z \<le> c \<and> c < z + 10) decimal_zeros))"

text \<open>
  \<open>digitpart ::= digit (["_"] digit)*\<close>: the digits of a whole string of that shape.
\<close>

fun digitpart :: "pystr \<Rightarrow> nat list option" where
  "digitpart [] = None"
| "digitpart [c] = map_option (\<lambda>v. [v]) (decimal_digit c)"
| "digitpart (c # d # cs) =
     (case decimal_digit c of
        None \<Rightarrow> None
      | Some v \<Rightarrow>
          if d = 95 then map_option ((#) v) (digitpart cs)
          else map_option ((#) v) (digitpart (d # cs)))"

definition digits_value :: "nat list \<Rightarrow> nat" where
  "digits_value ds = foldl (\<lambda>a d. 10 * a + d) 0 ds"

text \<open>\<open>number ::= [digitpart] "." digitpart | digitpart ["."]\<close>\<close>

definition parse_number :: "pystr \<Rightarrow> rat option" where
  "parse_number s =
     (let ip = takeWhile (\<lambda>c. c \<noteq> 46) s; rest = dropWhile (\<lambda>c. c \<noteq> 46) s
      in if rest = [] then map_option (\<lambda>ds. of_nat (digits_value ds)) (digitpart s)
         else let fp = tl rest
           in if fp = [] then map_option (\<lambda>ds. of_nat (digits_value ds)) (digitpart ip)
              else case digitpart fp of
                None \<Rightarrow> None
              | Some fs \<Rightarrow>
                  (if ip = [] then Some (of_nat (digits_value fs) / 10 ^ length fs)
                   else case digitpart ip of
                     None \<Rightarrow> None
                   | Some ds \<Rightarrow>
                       Some (of_nat (digits_value ds) + of_nat (digits_value fs) / 10 ^ length fs)))"

text \<open>\<open>exponent ::= ("e" | "E") ["+" | "-"] digitpart\<close>, the text after the letter.\<close>

definition parse_exponent :: "pystr \<Rightarrow> int option" where
  "parse_exponent s =
     (case s of
        [] \<Rightarrow> None
      | c # cs \<Rightarrow>
          if c = 45 then map_option (\<lambda>ds. - int (digits_value ds)) (digitpart cs)
          else if c = 43 then map_option (\<lambda>ds. int (digits_value ds)) (digitpart cs)
          else map_option (\<lambda>ds. int (digits_value ds)) (digitpart s))"

definition scale10 :: "rat \<Rightarrow> int \<Rightarrow> rat" where
  "scale10 r e = (if 0 \<le> e then r * 10 ^ nat e else r / 10 ^ nat (- e))"

text \<open>\<open>floatnumber ::= number [exponent]\<close>\<close>

definition parse_floatnumber :: "pystr \<Rightarrow> rat option" where
  "parse_floatnumber s =
     (let m = takeWhile (\<lambda>c. c \<noteq> 101 \<and> c \<noteq> 69) s; rest = dropWhile (\<lambda>c. c \<noteq> 101 \<and> c \<noteq> 69) s
      in if rest = [] then parse_number m
         else case parse_number m of
           None \<Rightarrow> None
         | Some r \<Rightarrow> map_option (scale10 r) (parse_exponent (tl rest)))"

text \<open>
  The float for a sign and a magnitude \<open>a \<ge> 0\<close>. A magnitude of at least
  \<open>2^1024 - 2^970\<close>, half a unit in the last place above the largest finite binary64,
  rounds to an infinity; one of at most \<open>2^-1075\<close>, half the smallest subnormal, rounds to
  a zero of that sign.
\<close>

definition make_float :: "bool \<Rightarrow> rat \<Rightarrow> pyfloat" where
  "make_float neg a =
     (if 2 ^ 1024 - 2 ^ 970 \<le> a then FInf neg
      else if a \<le> 1 / 2 ^ 1075 then (if neg then FNegZero else FVal 0)
      else FVal (if neg then - a else a))"

text \<open>
  The builtin \<open>float(s)\<close> on a string: the whitespace described above is ignored at both
  ends, then an optional sign, then \<open>inf\<close>, \<open>infinity\<close> or \<open>nan\<close> in any case, or a
  decimal floatnumber. Anything else raises ValueError.
\<close>

definition py_float :: "pystr \<Rightarrow> py_error + pyfloat" where
  "py_float s =
     (let t = float_strip s;
          neg = startswith t 45;
          body = (if startswith t 45 \<or> startswith t 43 then tl t else t)
      in if lower body = ustr ''inf'' \<or> lower body = ustr ''infinity'' then Inr (FInf neg)
         else if lower body = ustr ''nan'' then Inr FNaN
         else case parse_floatnumber body of
           None \<Rightarrow> Inl ValueError
         | Some r \<Rightarrow> Inr (make_float neg r))"

text \<open>\<open>str(n)\<close> of an integer: its decimal digits, after a minus sign when negative.\<close>

definition digit_char :: "nat \<Rightarrow> char" where
  "digit_char d = ''0123456789'' ! d"

function str_nat :: "nat \<Rightarrow> string" where
  "str_nat n = (if n < 10 then [digit_char n] else str_nat (n div 10) @ [digit_char (n mod 10)])"
  by pat_completeness auto
termination
  by (relation "measure id") auto

declare str_nat.simps [simp del]

definition str_int :: "int \<Rightarrow> string" where
  "str_int i = (if i < 0 then CHR ''-'' # str_nat (nat (- i)) else str_nat (nat i))"

text \<open>
  \<open>str(x)\<close> of a float, which is \<open>repr(x)\<close>. For a positive value \<open>a\<close>, \<open>decimal_point a\<close>
  is the \<open>p\<close> with \<open>10^(p-1) \<le> a < 10^p\<close>, and \<open>repr_digits\<close> gives the significant
  digits without trailing zeros. Python prints the shortest digits that read back as the
  same binary64; the model prints the digits of the rational, rounded to 17 places, which
  is the same text when the value has at most 15 significant digits.
\<close>

definition strip_zeros :: "string \<Rightarrow> string" where
  "strip_zeros ds =
     (case dropWhile (\<lambda>c. c = CHR ''0'') (rev ds) of [] \<Rightarrow> ''0'' | x # xs \<Rightarrow> rev (x # xs))"

definition decimal_point :: "rat \<Rightarrow> int" where
  "decimal_point a =
     (if 1 \<le> a then int (length (str_nat (nat \<lfloor>a\<rfloor>)))
      else 1 - int (length (str_nat (nat (\<lceil>1 / a\<rceil> - 1)))))"

definition repr_digits :: "rat \<Rightarrow> string \<times> int" where
  "repr_digits a =
     (let p = decimal_point a; n = nat (round (scale10 a (17 - p)))
      in if 10 ^ 17 \<le> n then (''1'', p + 1) else (strip_zeros (str_nat n), p))"

text \<open>
  The layout of \<open>repr\<close>: the exponent form when the decimal point is at \<open>-4\<close> or before, or
  after 16; otherwise the plain form, with a digit on both sides of the point.
\<close>

definition repr_layout :: "string \<Rightarrow> int \<Rightarrow> string" where
  "repr_layout ds p =
     (let n = length ds
      in if - 4 < p \<and> p \<le> 16 then
           (if p \<le> 0 then ''0.'' @ replicate (nat (- p)) CHR ''0'' @ ds
            else if n \<le> nat p then ds @ replicate (nat p - n) CHR ''0'' @ ''.0''
            else take (nat p) ds @ ''.'' @ drop (nat p) ds)
         else
           (let e = p - 1; es = str_nat (nat \<bar>e\<bar>)
            in take 1 ds @ (if 1 < n then CHR ''.'' # drop 1 ds else []) @ ''e'' @
               (if e < 0 then ''-'' else ''+'') @ replicate (2 - length es) CHR ''0'' @ es))"

fun float_repr :: "pyfloat \<Rightarrow> string" where
  "float_repr FNaN = ''nan''"
| "float_repr (FInf b) = (if b then ''-inf'' else ''inf'')"
| "float_repr FNegZero = ''-0.0''"
| "float_repr (FVal r) =
     (if r = 0 then ''0.0''
      else (if r < 0 then ''-'' else []) @
           (case repr_digits \<bar>r\<bar> of (ds, p) \<Rightarrow> repr_layout ds p))"

text \<open>\<open>str(value)\<close> as a text, for the values of the model.\<close>

fun str_value :: "pyval \<Rightarrow> pystr" where
  "str_value PNone = ustr ''None''"
| "str_value (PInt i) = ustr (str_int i)"
| "str_value (PFloat f) = ustr (float_repr f)"
| "str_value (PStr s) = s"

text \<open>
  \<open>a + b\<close> with a string on the left: concatenation when \<open>b\<close> is a string, TypeError for
  any other operand.
\<close>

fun str_add :: "pystr \<Rightarrow> pyval \<Rightarrow> py_error + pystr" where
  "str_add a (PStr b) = Inr (a @ b)"
| "str_add a v = Inl TypeError"

section \<open>The numeric canonicalizer\<close>

text \<open>
  \<open>_convert_to_numeric\<close> of \<open>script.py\<close>. None and numbers are returned as they are. A
  string is trimmed; the sentinels give None; a parenthesised text is parsed inside the
  parentheses and negated. In the last branch the \<open>try\<close> block parses the cleaned text and
  then evaluates \<open>print("fixed values are " + num)\<close> before \<open>return num\<close>; the bare
  \<open>except\<close> catches whatever the block raises and returns the trimmed text.
\<close>

fun convert_to_numeric :: "pyval \<Rightarrow> pyval" where
  "convert_to_numeric PNone = PNone"
| "convert_to_numeric (PInt i) = PInt i"
| "convert_to_numeric (PFloat f) = PFloat f"
| "convert_to_numeric (PStr v) =
     (let value_str = strip v
      in if value_str = [] \<or> lower value_str = ustr ''nan'' then PNone
         else if value_str = ustr ''-'' \<or> value_str = [8211] then PNone
         else if startswith value_str 40 \<and> endswith value_str 41 then
           (case py_float (replace_char 160 (replace_char 32 (replace_char 44
                    (slice_1_m1 value_str)))) of
              Inl e \<Rightarrow> PStr value_str
            | Inr num \<Rightarrow> PFloat (fneg num))
         else
           (case py_float (replace_char 160 (replace_char 32 (replace_char 44 value_str))) of
              Inl e \<Rightarrow> PStr value_str
            | Inr num \<Rightarrow>
                (case str_add (ustr ''fixed values are '') (PFloat num) of
                   Inl e \<Rightarrow> PStr value_str
                 | Inr msg \<Rightarrow> PFloat num)))"

text \<open>
  \<open>_convert_to_numeric\<close> of \<open>standard_schema_extractor.py\<close>, the earlier variant. Only
  None is returned as it is: every other value, a number too, goes through \<open>str(value)\<close>.
  The variant knows no dash sentinel, compares with \<open>nan\<close> exactly, removes commas and
  ordinary spaces only, and in the last branch returns the cleaned text, not the number.
\<close>

definition convert_to_numeric_sse :: "pyval \<Rightarrow> pyval" where
  "convert_to_numeric_sse v =
     (if v = PNone then PNone
      else let value_str = strip (str_value v)
        in if value_str = [] \<or> value_str = ustr ''nan'' then PNone
           else if startswith value_str 40 \<and> endswith value_str 41 then
             (case py_float (replace_char 32 (replace_char 44 (slice_1_m1 value_str))) of
                Inl e \<Rightarrow> PStr value_str
              | Inr num \<Rightarrow> PFloat (fneg num))
           else
             (let clean_value = replace_char 32 (replace_char 44 value_str)
              in case py_float clean_value of
                   Inl e \<Rightarrow> PStr value_str
                 | Inr num \<Rightarrow> PStr clean_value))"

text \<open>
  \<open>_try_parse_number\<close> of \<open>page8_extractor.py\<close>. A falsy value or one that is not a
  string is returned as it is; \<open>float(num_str) * -1\<close> is the negation.
\<close>

fun try_parse_number :: "pyval \<Rightarrow> pyval" where
  "try_parse_number (PStr v) =
     (if v = [] then PStr v
      else let text = strip v
        in if text = [] \<or> text = ustr ''-'' then PNone
           else if startswith text 40 \<and> endswith text 41 then
             (case py_float (replace_char 32 (replace_char 44 (slice_1_m1 text))) of
                Inl e \<Rightarrow> PStr text
              | Inr num \<Rightarrow> PFloat (fneg num))
           else
             (case py_float (replace_char 32 (replace_char 44 text)) of
                Inl e \<Rightarrow> PStr text
              | Inr num \<Rightarrow> PFloat num))"
| "try_parse_number v = v"

text \<open>
  \<open>_parse_number\<close> of \<open>pymupdf_extractor.py\<close>, on a string cell. Line feeds and carriage
  returns are removed inside the \<open>try\<close> block, so the text returned on failure is the one
  without them.
\<close>

definition parse_number_cell :: "pystr \<Rightarrow> pyval" where
  "parse_number_cell v =
     (if v = [] \<or> v = ustr ''-'' then PNone
      else let text = replace_char 13 (replace_char 10 (strip v))
        in if startswith text 40 \<and> endswith text 41 then
             (case py_float (replace_char 32 (replace_char 44 (slice_1_m1 text))) of
                Inl e \<Rightarrow> PStr text
              | Inr num \<Rightarrow> PFloat (fneg num))
           else
             (case py_float (replace_char 32 (replace_char 44 text)) of
                Inl e \<Rightarrow> PStr text
              | Inr num \<Rightarrow> PFloat num))"

section \<open>Raw tables and the rectangularizer\<close>

text \<open>
  A raw cell is a string or None; a cell is truthy when it is a non-empty string. The
  raw table handed over by the table source is a Python list of row lists. The rows are
  objects that \<open>_convert_table_to_dataframe\<close> appends to, so a table is a list of
  addresses and the heap gives the cells of the row at each address.
\<close>

type_synonym cell = "pystr option"

type_synonym heap = "nat \<Rightarrow> cell list"

text \<open>The heap in which no address holds any cell yet.\<close>

definition no_rows :: heap where
  "no_rows = (\<lambda>a. [])"

definition truthy :: "cell \<Rightarrow> bool" where
  "truthy c = (case c of None \<Rightarrow> False | Some s \<Rightarrow> s \<noteq> [])"

text \<open>\<open>while len(row) < n: row.append(e)\<close>\<close>

function pad_while :: "'a list \<Rightarrow> nat \<Rightarrow> 'a \<Rightarrow> 'a list" where
  "pad_while row n e = (if length row < n then pad_while (row @ [e]) n e else row)"
  by pat_completeness auto
termination
  by (relation "measure (\<lambda>(row, n, e). n - length row)") auto

declare pad_while.simps [simp del]

text \<open>
  A pandas DataFrame as the grid of its values: the column labels and the rows, every
  row as wide as the label list. The pandas calls are modelled by what they do to that
  grid. A value is missing (NA) when it is None or NaN.
\<close>

record dataframe =
  columns :: "cell list"
  rows :: "pyval list list"

definition isna :: "pyval \<Rightarrow> bool" where
  "isna v = (v = PNone \<or> v = PFloat FNaN)"

definition as_value :: "cell \<Rightarrow> pyval" where
  "as_value c = (case c of None \<Rightarrow> PNone | Some s \<Rightarrow> PStr s)"

text \<open>\<open>pd.DataFrame(padded_rows, columns=headers)\<close>\<close>

definition DataFrame :: "cell list list \<Rightarrow> cell list \<Rightarrow> dataframe" where
  "DataFrame data hs = \<lparr>columns = hs, rows = map (map as_value) data\<rparr>"

text \<open>\<open>df.dropna(how='all')\<close>: the rows whose values are all missing go.\<close>

definition dropna_rows :: "dataframe \<Rightarrow> dataframe" where
  "dropna_rows df = df\<lparr>rows := filter (\<lambda>r. \<not> list_all isna r) (rows df)\<rparr>"

text \<open>
  \<open>df.dropna(axis=1, how='all')\<close>: the columns whose values are all missing go. The
  mask says, per column, whether some row has a value there.
\<close>

definition column_mask :: "nat \<Rightarrow> pyval list list \<Rightarrow> bool list" where
  "column_mask w rs = foldr (\<lambda>r m. map2 (\<or>) (map (\<lambda>v. \<not> isna v) r) m) rs (replicate w False)"

definition select :: "bool list \<Rightarrow> 'a list \<Rightarrow> 'a list" where
  "select keep xs = map snd (filter fst (zip keep xs))"

definition dropna_columns :: "dataframe \<Rightarrow> dataframe" where
  "dropna_columns df =
     (let keep = column_mask (length (columns df)) (rows df)
      in \<lparr>columns = select keep (columns df), rows = map (select keep) (rows df)\<rparr>)"

text \<open>\<open>df.map(lambda x: x.strip() if isinstance(x, str) else x)\<close>\<close>

fun strip_value :: "pyval \<Rightarrow> pyval" where
  "strip_value (PStr s) = PStr (strip s)"
| "strip_value v = v"

text \<open>\<open>df.replace('', None)\<close>\<close>

definition replace_empty :: "pyval \<Rightarrow> pyval" where
  "replace_empty v = (if v = PStr [] then PNone else v)"

definition map_values :: "(pyval \<Rightarrow> pyval) \<Rightarrow> dataframe \<Rightarrow> dataframe" where
  "map_values f df = df\<lparr>rows := map (map f) (rows df)\<rparr>"

text \<open>\<open>_clean_dataframe\<close>; \<open>reset_index\<close> renumbers the rows and leaves the grid alone.\<close>

definition clean_dataframe :: "dataframe \<Rightarrow> dataframe" where
  "clean_dataframe df =
     map_values replace_empty (map_values strip_value (dropna_columns (dropna_rows df)))"

text \<open>
  The \<open>for row in data_rows\<close> loop of \<open>_convert_table_to_dataframe\<close>: each row object is
  extended in place up to \<open>max_cols\<close> cells, and a copy cut to \<open>max_cols\<close> cells is
  collected.
\<close>

fun pad_rows :: "nat \<Rightarrow> nat list \<Rightarrow> heap \<times> cell list list \<Rightarrow> heap \<times> cell list list" where
  "pad_rows max_cols [] st = st"
| "pad_rows max_cols (a # as) (h, padded_rows) =
     (let h' = h(a := pad_while (h a) max_cols (Some []))
      in pad_rows max_cols as (h', padded_rows @ [take max_cols (h' a)]))"

text \<open>
  \<open>_convert_table_to_dataframe\<close> (the same text in \<open>script.py\<close> and
  \<open>standard_schema_extractor.py\<close>): the heap after the call and the DataFrame returned,
  None when the table has fewer than two rows or no data row with a truthy cell.
\<close>

definition convert_table_to_dataframe :: "heap \<Rightarrow> nat list \<Rightarrow> heap \<times> dataframe option" where
  "convert_table_to_dataframe h table =
     (if length table < 2 then (h, None)
      else
        let headers = h (hd table);
            data_rows = filter (\<lambda>a. list_ex truthy (h a)) (tl table)
        in if data_rows = [] then (h, None)
           else
             let max_cols = length headers;
                 (h', padded_rows) = pad_rows max_cols data_rows (h, [])
             in (h', Some (clean_dataframe (DataFrame padded_rows headers))))"

text \<open>
  \<open>convert_numeric_columns\<close> on one table, for distinct column labels: every value of
  every column goes through \<open>_convert_to_numeric\<close>.
\<close>

definition convert_numeric_columns :: "dataframe \<Rightarrow> dataframe" where
  "convert_numeric_columns df = map_values convert_to_numeric df"





section \<open>The row classifier\<close>

datatype row_role = Header | Ordinary | Emphasis

text \<open>\<open>any(keyword in text for keyword in keywords)\<close>\<close>

definition any_keyword_in :: "pystr list \<Rightarrow> pystr \<Rightarrow> bool" where
  "any_keyword_in keywords text = list_ex (\<lambda>keyword. str_in keyword text) keywords"

definition default_keywords :: "pystr list" where
  "default_keywords =
     [ustr ''balance'', ustr ''comprehensive'', ustr ''payment'', ustr ''contribution'',
      ustr ''sale'']"

text \<open>\<open>_is_total_or_subtotal\<close> of \<open>page8_extractor.py\<close>, on a string cell.\<close>

definition is_total_or_subtotal :: "pystr \<Rightarrow> bool" where
  "is_total_or_subtotal cell_value =
     (if cell_value = [] then False else any_keyword_in default_keywords (lower cell_value))"

text \<open>
  \<open>create_excel_file\<close> of \<open>page8_extractor.py\<close> writes the header list, table position 0,
  in the header style and gives every cell of a data row the total style exactly when
  \<open>_is_total_or_subtotal\<close> holds of the row's first cell.
\<close>

definition create_excel_file_role :: "nat \<Rightarrow> pystr list \<Rightarrow> row_role" where
  "create_excel_file_role pos row =
     (if pos = 0 then Header
      else case row of
        [] \<Rightarrow> Ordinary
      | c # _ \<Rightarrow> if is_total_or_subtotal c then Emphasis else Ordinary)"

text \<open>
  \<open>create_excel\<close> of \<open>pymupdf_extractor.py\<close>: \<open>row_idx\<close> counts from 1, and the keyword
  list is the narrower one.
\<close>

definition create_excel_role :: "nat \<Rightarrow> pystr list \<Rightarrow> row_role" where
  "create_excel_role row_idx row =
     (let is_header = (row_idx = 1);
          is_total = (case row of
                        [] \<Rightarrow> False
                      | c # _ \<Rightarrow> any_keyword_in [ustr ''balance as at'', ustr ''balance at'']
                                  (lower c))
      in if is_header then Header else if is_total then Emphasis else Ordinary)"

section \<open>The schema mapper\<close>

text \<open>
  The metadata kept per extracted table; the mapper reads the page number only.
\<close>

record metadata =
  page :: nat
  table_index :: nat
  n_rows :: nat
  n_columns :: nat

text \<open>
  A value stored in a record of the standard schema. \<open>str(x)\<close> of a float is kept as
  the float it was taken from; \<open>float_repr\<close> gives its text.
\<close>

datatype field = Val pyval | StrOfFloat pyfloat

type_synonym row_data = "string \<rightharpoonup> field"

text \<open>The format \<open>{n:03d}\<close> of a natural number: zeros on the left up to three digits.\<close>

definition fmt_03d :: "nat \<Rightarrow> string" where
  "fmt_03d n = replicate (3 - length (str_nat n)) CHR ''0'' @ str_nat n"

fun py_str :: "pyval \<Rightarrow> field" where
  "py_str PNone = Val (PStr (ustr ''None''))"
| "py_str (PInt i) = Val (PStr (ustr (str_int i)))"
| "py_str (PFloat f) = StrOfFloat f"
| "py_str (PStr s) = Val (PStr s)"

definition set_none :: "string list \<Rightarrow> row_data \<Rightarrow> row_data" where
  "set_none keys row_data = foldl (\<lambda>m k. m(k \<mapsto> Val PNone)) row_data keys"

text \<open>The body of \<open>for i in range(1, 5)\<close>: the label and the synthesized id of dimension \<open>i\<close>.\<close>

definition set_dim :: "nat \<Rightarrow> nat \<Rightarrow> pyval list \<Rightarrow> row_data \<Rightarrow> nat \<Rightarrow> row_data" where
  "set_dim table_idx row_idx extracted_cols row_data i =
     (if length extracted_cols \<ge> i then
        row_data
          (''dim_'' @ str_nat i @ ''_id'' \<mapsto>
             Val (PStr (ustr (''DIM'' @ str_nat i @ ''_'' @ str_nat table_idx @ ''_'' @
                              str_nat row_idx))),
           ''dim_'' @ str_nat i @ ''_name'' \<mapsto> py_str (extracted_cols ! (i - 1)))
      else
        row_data
          (''dim_'' @ str_nat i @ ''_id'' \<mapsto> Val PNone,
           ''dim_'' @ str_nat i @ ''_name'' \<mapsto> Val PNone))"

text \<open>
  The period fields: all three and their check fields start as None; then the last cell
  goes to 2024 when the row has at least four cells, the one before it to 2023 when it has
  at least five, the one before that to 2022 when it has at least six.
\<close>

definition set_years :: "pyval list \<Rightarrow> row_data \<Rightarrow> row_data" where
  "set_years extracted_cols row_data =
     (let n = length extracted_cols;
          r0 = foldl (\<lambda>m year. m(year \<mapsto> Val PNone, year @ ''_check'' \<mapsto> Val PNone)) row_data
                 [''2022'', ''2023'', ''2024''];
          r1 = (if n \<ge> 4 then r0(''2024'' \<mapsto> Val (extracted_cols ! (n - 1))) else r0);
          r2 = (if n \<ge> 5 then r1(''2023'' \<mapsto> Val (extracted_cols ! (n - 2))) else r1)
      in if n \<ge> 6 then r2(''2022'' \<mapsto> Val (extracted_cols ! (n - 3))) else r2)"

text \<open>
  The record built for one row in \<open>transform_to_standard_schema\<close> of \<open>script.py\<close> (the
  text of \<open>standard_schema_extractor.py\<close> is the same with the loops written out).
  \<open>today\<close> is the date \<open>datetime.now()\<close> prints, the same at both calls.
\<close>

definition make_row :: "pystr \<Rightarrow> nat \<Rightarrow> metadata \<Rightarrow> nat \<Rightarrow> int \<Rightarrow> pyval list \<Rightarrow> row_data" where
  "make_row today table_idx md row_idx primary_key_counter row =
     (let r1 = Map.empty
            (''primary_key'' \<mapsto> Val (PInt primary_key_counter),
             ''date_last_updated'' \<mapsto> Val (PStr today),
             ''published_date'' \<mapsto> Val (PStr today),
             ''reported_date'' \<mapsto> Val (PStr (ustr ''2024-12-31'')),
             ''doc_page_num'' \<mapsto> Val (PInt (int (page md))),
             ''file_page_num'' \<mapsto> Val (PInt (int (page md))),
             ''table_id'' \<mapsto> Val (PStr (ustr (''TABLE_'' @ fmt_03d (table_idx + 1)))),
             ''country'' \<mapsto> Val (PStr (ustr ''PL'')));
          r2 = set_none [''geo_1_id'', ''geo_1_name'', ''geo_1_type'', ''geo_2_id'',
                         ''geo_2_name'', ''geo_2_type''] r1;
          extracted_cols = row;
          r3 = foldl (set_dim table_idx row_idx extracted_cols) r2 [1..<5];
          r4 = r3
            (''metric_id'' \<mapsto>
               Val (PStr (ustr (''METRIC_'' @ str_nat table_idx @ ''_'' @ str_nat row_idx))),
             ''metric_name'' \<mapsto> Val (PStr (ustr (''Value_'' @ str_nat row_idx))),
             ''source_metric_id'' \<mapsto>
               Val (PStr (ustr (''SOURCE_'' @ str_nat table_idx @ ''_'' @ str_nat row_idx))),
             ''source_metric_name'' \<mapsto> Val (PStr (ustr ''PDF_Extracted'')),
             ''indentation'' \<mapsto> Val (PInt 0),
             ''process_flag'' \<mapsto> Val (PInt 1),
             ''base_factor'' \<mapsto> Val (PInt 1),
             ''display_power_factor'' \<mapsto> Val (PInt 0),
             ''data_frequency'' \<mapsto> Val (PStr (ustr ''Annual'')),
             ''aggregation_method'' \<mapsto> Val (PStr (ustr ''Sum'')),
             ''unit'' \<mapsto> Val (PStr (ustr ''PLN'')),
             ''unit_type'' \<mapsto> Val (PStr (ustr ''Thousands'')),
             ''note_id'' \<mapsto> Val PNone,
             ''note_reference'' \<mapsto> Val PNone,
             ''cumulative_periods'' \<mapsto> Val (PInt 1),
             ''comments'' \<mapsto>
               Val (PStr (ustr (''Extracted from page '' @ str_nat (page md)))));
          r5 = set_years extracted_cols r4
      in r5(''check_sum'' \<mapsto> Val PNone, ''concat'' \<mapsto> Val PNone, ''formula'' \<mapsto> Val PNone))"

text \<open>
  The two loops, with the list of records and the primary-key counter as their state:
  over the rows of one table, and over the tables paired with their metadata.
\<close>

fun rows_loop ::
  "pystr \<Rightarrow> nat \<Rightarrow> metadata \<Rightarrow> nat \<Rightarrow> pyval list list \<Rightarrow> row_data list \<times> int \<Rightarrow>
   row_data list \<times> int" where
  "rows_loop today table_idx md row_idx [] st = st"
| "rows_loop today table_idx md row_idx (row # rest) (transformed_data, primary_key_counter) =
     rows_loop today table_idx md (Suc row_idx) rest
       (transformed_data @ [make_row today table_idx md row_idx primary_key_counter row],
        primary_key_counter + 1)"

fun tables_loop ::
  "pystr \<Rightarrow> nat \<Rightarrow> (dataframe \<times> metadata) list \<Rightarrow> row_data list \<times> int \<Rightarrow>
   row_data list \<times> int" where
  "tables_loop today table_idx [] st = st"
| "tables_loop today table_idx ((df, md) # rest) st =
     tables_loop today (Suc table_idx) rest (rows_loop today table_idx md 0 (rows df) st)"

definition transform_to_standard_schema ::
  "pystr \<Rightarrow> dataframe list \<Rightarrow> metadata list \<Rightarrow> row_data list" where
  "transform_to_standard_schema today extracted_tables table_metadata =
     fst (tables_loop today 0 (zip extracted_tables table_metadata) ([], 1))"

section \<open>Evaluation and string lemmas\<close>

lemmas str_eval = ustr_def strip_def isspace_def startswith_def endswith_def slice_1_m1_def
  replace_char_def lower_def lower_cp_def

lemmas float_eval = py_float_def float_strip_def float_space_def parse_floatnumber_def
  parse_number_def parse_exponent_def scale10_def decimal_digit_def digits_value_def

lemma dropWhile_rev_dropWhile:
  "dropWhile P (rev (dropWhile P (rev (dropWhile P s)))) =
   rev (dropWhile P (rev (dropWhile P s)))"
proof (cases "dropWhile P s")
  case Nil
  show ?thesis unfolding Nil by simp
next
  case (Cons a t)
  then have na: "\<not> P a"
    by (metis hd_dropWhile list.sel(1) list.distinct(1))
  have "dropWhile P (rev t @ a # []) = dropWhile P (rev t) @ a # []"
    using na by (rule dropWhile_append3)
  then have "rev (dropWhile P (rev (a # t))) = a # rev (dropWhile P (rev t))"
    by simp
  with Cons na show ?thesis by simp
qed

lemma strip_idem: "strip (strip s) = strip s"
  unfolding strip_def by (simp add: dropWhile_rev_dropWhile)

lemma startswith_paren_not_sentinel:
  assumes "startswith t 40"
  shows "t \<noteq> [] \<and> lower t \<noteq> ustr ''nan'' \<and> t \<noteq> ustr ''nan'' \<and> t \<noteq> ustr ''-'' \<and>
         t \<noteq> [8211]"
  using assms by (cases t) (auto simp: startswith_def lower_def lower_cp_def ustr_def)

lemma ustr_1_234: "ustr ''1 234'' = [49, 32, 50, 51, 52]"
  by (simp add: ustr_def)

lemma ustr_p1234: "ustr ''(1,234)'' = [40, 49, 44, 50, 51, 52, 41]"
  by (simp add: ustr_def)

lemma ustr_pm5: "ustr ''(-5)'' = [40, 45, 53, 41]"
  by (simp add: ustr_def)

text \<open>Between 1 and a million nothing overflows or underflows.\<close>

lemma make_float_plain:
  assumes "1 \<le> a" and "a \<le> 1000000"
  shows "make_float neg a = FVal (if neg then - a else a)"
proof -
  have "(1000000 :: rat) < 2 ^ 1024 - 2 ^ 970" by simp
  moreover have "(1 :: rat) / 2 ^ 1075 < 1" by simp
  ultimately show ?thesis using assms unfolding make_float_def by auto
qed

lemma py_float_1234: "py_float [49, 50, 51, 52] = Inr (FVal 1234)"
  by (simp add: str_eval float_eval make_float_plain)

lemma py_float_m5: "py_float [45, 53] = Inr (FVal (- 5))"
  by (simp add: str_eval float_eval make_float_plain)

lemma py_float_m1234_0: "py_float [45, 49, 50, 51, 52, 46, 48] = Inr (FVal (- 1234))"
  by (simp add: str_eval float_eval make_float_plain)

text \<open>
  \<open>float\<close> beyond the plain ASCII numbers: a text too large for binary64 gives an infinity,
  and the digits of other scripts count (here the Arabic-Indic digits three and five).
\<close>

lemma py_float_overflow: "py_float (ustr ''1e400'') = Inr (FInf False)"
  by (simp add: str_eval float_eval make_float_def)

lemma py_float_arabic_indic: "py_float [1635, 46, 1637] = Inr (FVal (7 / 2))"
  by (simp add: str_eval float_eval make_float_def decimal_zeros_def)

text \<open>The text of a number starts with a digit, a minus sign, or the letter of inf or nan.\<close>

lemma strip_keeps_head:
  assumes "\<not> isspace c"
  shows "\<exists>t. strip (c # cs) = c # t"
proof -
  have "dropWhile isspace (rev cs @ c # []) = dropWhile isspace (rev cs) @ c # []"
    using assms by (rule dropWhile_append3)
  then show ?thesis using assms by (simp add: strip_def)
qed

lemma digit_char_digit: "d < 10 \<Longrightarrow> digit_char d \<in> set ''0123456789''"
  unfolding digit_char_def by (rule nth_mem) simp

lemma str_nat_head: "str_nat n \<noteq> [] \<and> hd (str_nat n) \<in> set ''0123456789''"
proof (induction n rule: str_nat.induct)
  case (1 n)
  show ?case
  proof (cases "n < 10")
    case True
    then have "str_nat n = [digit_char n]" by (subst str_nat.simps) simp
    then show ?thesis using digit_char_digit [OF True] by (simp del: set_simps)
  next
    case False
    then have "str_nat n = str_nat (n div 10) @ [digit_char (n mod 10)]"
      by (subst str_nat.simps) simp
    then show ?thesis using 1 [OF False] by (simp del: set_simps)
  qed
qed

lemma strip_zeros_head:
  assumes "ds \<noteq> []" and "hd ds \<in> D" and "CHR ''0'' \<in> D"
  shows "strip_zeros ds \<noteq> [] \<and> hd (strip_zeros ds) \<in> D"
proof (cases "dropWhile (\<lambda>c. c = CHR ''0'') (rev ds)")
  case Nil
  show ?thesis unfolding strip_zeros_def Nil using assms(3) by simp
next
  case (Cons x xs)
  have "rev ds = takeWhile (\<lambda>c. c = CHR ''0'') (rev ds) @ x # xs"
    using takeWhile_dropWhile_id [of "\<lambda>c. c = CHR ''0''" "rev ds"] Cons by simp
  then have "rev (rev ds) = rev (takeWhile (\<lambda>c. c = CHR ''0'') (rev ds) @ x # xs)"
    by (rule arg_cong)
  then have d: "ds = rev (x # xs) @ rev (takeWhile (\<lambda>c. c = CHR ''0'') (rev ds))"
    by (simp only: rev_rev_ident rev_append)
  have n: "rev (x # xs) \<noteq> []" by simp
  have "hd ds = hd (rev (x # xs))"
    by (subst d) (simp only: hd_append2 [OF n])
  then show ?thesis unfolding strip_zeros_def Cons using assms(2) n by simp
qed

lemma repr_layout_head:
  assumes "ds \<noteq> []" and "hd ds \<in> D" and "CHR ''0'' \<in> D"
  shows "repr_layout ds p \<noteq> [] \<and> hd (repr_layout ds p) \<in> D"
proof -
  obtain c cs where ds: "ds = c # cs" using assms(1) by (cases ds) simp_all
  have cD: "c \<in> D" using assms(2) ds by simp
  consider (a) "- 4 < p \<and> p \<le> 16" "p \<le> 0"
    | (b) "- 4 < p \<and> p \<le> 16" "\<not> p \<le> 0" "length ds \<le> nat p"
    | (c) "- 4 < p \<and> p \<le> 16" "\<not> p \<le> 0" "\<not> length ds \<le> nat p"
    | (d) "\<not> (- 4 < p \<and> p \<le> 16)"
    by blast
  then show ?thesis
  proof cases
    case a
    then show ?thesis using assms(3) by (simp add: repr_layout_def)
  next
    case b
    then show ?thesis using ds cD by (simp add: repr_layout_def)
  next
    case c
    then obtain k where "nat p = Suc k" by (cases "nat p") simp_all
    then show ?thesis using c ds cD by (simp add: repr_layout_def)
  next
    case d
    then have "repr_layout ds p =
        (let e = p - 1; es = str_nat (nat \<bar>e\<bar>)
         in take 1 ds @ (if 1 < length ds then CHR ''.'' # drop 1 ds else []) @ ''e'' @
            (if e < 0 then ''-'' else ''+'') @ replicate (2 - length es) CHR ''0'' @ es)"
      unfolding repr_layout_def Let_def by (simp only: if_False)
    then show ?thesis using ds cD by (simp add: Let_def)
  qed
qed

lemma repr_digits_head:
  assumes "CHR ''0'' \<in> D" and "CHR ''1'' \<in> D" and "set ''0123456789'' \<subseteq> D"
  shows "fst (repr_digits a) \<noteq> [] \<and> hd (fst (repr_digits a)) \<in> D"
proof -
  let ?n = "nat (round (scale10 a (17 - decimal_point a)))"
  have "str_nat ?n \<noteq> []" and "hd (str_nat ?n) \<in> D"
    using str_nat_head [of ?n] assms(3) by blast+
  from strip_zeros_head [OF this assms(1)] show ?thesis
    using assms(2) by (simp add: repr_digits_def Let_def)
qed

lemma float_repr_head: "float_repr f \<noteq> [] \<and> hd (float_repr f) \<in> set ''-0123456789in''"
proof (cases f)
  case (FVal r)
  let ?D = "set ''-0123456789in''"
  have z: "CHR ''0'' \<in> ?D" and o: "CHR ''1'' \<in> ?D" and s: "set ''0123456789'' \<subseteq> ?D"
    and m: "CHR ''-'' \<in> ?D"
    by simp_all
  obtain ds p where d: "repr_digits \<bar>r\<bar> = (ds, p)" by (cases "repr_digits \<bar>r\<bar>")
  have "ds \<noteq> []" and "hd ds \<in> ?D"
    using repr_digits_head [OF z o s, of "\<bar>r\<bar>"] d by simp_all
  from repr_layout_head [OF this z, of p]
  have l: "repr_layout ds p \<noteq> []" "hd (repr_layout ds p) \<in> ?D" by blast+
  show ?thesis
  proof (cases "r = 0")
    case True
    then show ?thesis using FVal by simp
  next
    case False
    show ?thesis
    proof (cases "r < 0")
      case True
      then show ?thesis using FVal \<open>r \<noteq> 0\<close> d by simp
    next
      case neg: False
      have "float_repr f = repr_layout ds p" using FVal False neg d by simp
      then show ?thesis using l by simp
    qed
  qed
qed simp_all

lemma str_int_head: "str_int i \<noteq> [] \<and> hd (str_int i) \<in> set ''-0123456789in''"
proof (cases "i < 0")
  case True
  then show ?thesis by (simp add: str_int_def)
next
  case False
  have "set ''0123456789'' \<subseteq> set ''-0123456789in''" by simp
  then have "str_nat (nat i) \<noteq> [] \<and> hd (str_nat (nat i)) \<in> set ''-0123456789in''"
    using str_nat_head [of "nat i"] by blast
  then show ?thesis using False by (simp add: str_int_def del: set_simps)
qed

lemma number_text_head:
  assumes "c \<in> set ''-0123456789in''"
  shows "\<not> isspace (of_char c) \<and> of_char c \<noteq> (40 :: nat)"
  using assms by (auto simp: isspace_def)


lemma convert_to_numeric_sse_number:
  assumes "v = PInt i \<or> v = PFloat f"
  shows "convert_to_numeric_sse v = PNone \<or> (\<exists>s. convert_to_numeric_sse v = PStr s)"
proof -
  obtain t where "str_value v = ustr t" and "t \<noteq> []" and "hd t \<in> set ''-0123456789in''"
    using assms str_int_head [of i] float_repr_head [of f] by auto
  then obtain c cs where h: "str_value v = of_char c # cs" and c: "c \<in> set ''-0123456789in''"
    by (cases t) (simp_all add: ustr_def del: set_simps)
  from number_text_head [OF c] have ns: "\<not> isspace (of_char c)" and np: "of_char c \<noteq> (40 :: nat)"
    by simp_all
  from strip_keeps_head [OF ns] obtain t where t: "strip (of_char c # cs) = of_char c # t"
    by blast
  show ?thesis
    using h t np by (simp add: convert_to_numeric_sse_def Let_def startswith_def split: sum.splits)
qed

lemma float_repr_m1234: "float_repr (FVal (- 1234)) = ''-1234.0''"
proof -
  have p: "decimal_point 1234 = 4"
    by (simp add: decimal_point_def str_nat.simps digit_char_def)
  have "round (scale10 1234 13) = 12340000000000000"
    by (simp add: scale10_def)
  then have n: "nat (round (scale10 1234 (17 - decimal_point 1234))) = 12340000000000000"
    by (simp add: p)
  have s: "str_nat 12340000000000000 = ''12340000000000000''"
    by (simp add: str_nat.simps digit_char_def)
  have "repr_digits 1234 = (''1234'', 4)"
    unfolding repr_digits_def Let_def n s by (simp add: p strip_zeros_def)
  then show ?thesis by (simp add: repr_layout_def)
qed

section \<open>Properties of the numeric canonicalizer\<close>

lemma convert_to_numeric_strip:
  "convert_to_numeric (PStr (strip v)) = convert_to_numeric (PStr v)"
  by (simp add: strip_idem)

lemma convert_to_numeric_cases:
  "convert_to_numeric (PStr v) = PNone \<or> (\<exists>f. convert_to_numeric (PStr v) = PFloat f) \<or>
   convert_to_numeric (PStr v) = PStr (strip v)"
  by (simp add: Let_def split: sum.splits)

lemma convert_to_numeric_p1234:
  "convert_to_numeric (PStr (ustr ''(1,234)'')) = PFloat (FVal (- 1234))"
  by (simp add: ustr_p1234 str_eval py_float_1234)

lemma convert_to_numeric_sse_p1234:
  "convert_to_numeric_sse (PStr (ustr ''(1,234)'')) = PFloat (FVal (- 1234))"
  by (simp add: convert_to_numeric_sse_def ustr_p1234 str_eval py_float_1234)

lemma convert_to_numeric_sse_m1234:
  "convert_to_numeric_sse (PFloat (FVal (- 1234))) = PStr (ustr ''-1234.0'')"
proof -
  have u: "ustr ''-1234.0'' = [45, 49, 50, 51, 52, 46, 48]" by (simp add: ustr_def)
  have n: "ustr ''nan'' = [110, 97, 110]" by (simp add: ustr_def)
  have s: "strip [45, 49, 50, 51, 52, 46, 48] = [45, 49, 50, 51, 52, 46, 48]"
    by (simp add: strip_def isspace_def)
  show ?thesis
    unfolding convert_to_numeric_sse_def str_value.simps float_repr_m1234 u Let_def s n
    by (simp add: startswith_def endswith_def replace_char_def py_float_m1234_0)
qed

text \<open>
  A text that is not enclosed in parentheses never comes back as a number: the \<open>print\<close>
  in the \<open>try\<close> block raises on every successful parse.
\<close>

lemma convert_to_numeric_number_needs_parentheses:
  assumes "convert_to_numeric (PStr v) = PFloat f"
  shows "startswith (strip v) 40 \<and> endswith (strip v) 41"
  using assms by (simp add: Let_def split: if_splits sum.splits)

text \<open>
  The parenthesis rule of each of the four parsers: a trimmed text enclosed in parentheses
  whose cleaned interior parses gives the negation of what \<open>float\<close> returned.
\<close>

lemma convert_to_numeric_paren:
  assumes "startswith (strip v) 40" and "endswith (strip v) 41"
    and "py_float (replace_char 160 (replace_char 32 (replace_char 44
           (slice_1_m1 (strip v))))) = Inr num"
  shows "convert_to_numeric (PStr v) = PFloat (fneg num)"
  using assms startswith_paren_not_sentinel [of "strip v"] by (simp add: Let_def)

lemma convert_to_numeric_sse_paren:
  assumes "startswith (strip v) 40" and "endswith (strip v) 41"
    and "py_float (replace_char 32 (replace_char 44 (slice_1_m1 (strip v)))) = Inr num"
  shows "convert_to_numeric_sse (PStr v) = PFloat (fneg num)"
  using assms startswith_paren_not_sentinel [of "strip v"]
  by (simp add: convert_to_numeric_sse_def Let_def)

lemma try_parse_number_paren:
  assumes "startswith (strip v) 40" and "endswith (strip v) 41"
    and "py_float (replace_char 32 (replace_char 44 (slice_1_m1 (strip v)))) = Inr num"
  shows "try_parse_number (PStr v) = PFloat (fneg num)"
proof -
  have "v \<noteq> []" using assms(1) by (auto simp: strip_def startswith_def)
  then show ?thesis
    using assms startswith_paren_not_sentinel [of "strip v"] by (simp add: Let_def)
qed

lemma parse_number_cell_paren:
  assumes "startswith (replace_char 13 (replace_char 10 (strip v))) 40"
    and "endswith (replace_char 13 (replace_char 10 (strip v))) 41"
    and "py_float (replace_char 32 (replace_char 44
           (slice_1_m1 (replace_char 13 (replace_char 10 (strip v)))))) = Inr num"
  shows "parse_number_cell v = PFloat (fneg num)"
proof -
  have "v \<noteq> []" using assms(1) by (auto simp: strip_def startswith_def replace_char_def)
  moreover have "v \<noteq> ustr ''-''"
    using assms(1) by (auto simp: str_eval)
  ultimately show ?thesis
    using assms by (simp add: parse_number_cell_def Let_def)
qed

text \<open>
  The file separator U+001C is whitespace for \<open>str.strip()\<close> but not for \<open>float\<close>: inside
  the parentheses it makes the parse fail, and all four parsers return the text.
\<close>

lemma file_separator_in_parentheses_stays_text:
  "py_float [28, 53] = Inl ValueError \<and>
   convert_to_numeric (PStr [40, 28, 53, 41]) = PStr [40, 28, 53, 41] \<and>
   convert_to_numeric_sse (PStr [40, 28, 53, 41]) = PStr [40, 28, 53, 41] \<and>
   try_parse_number (PStr [40, 28, 53, 41]) = PStr [40, 28, 53, 41] \<and>
   parse_number_cell [40, 28, 53, 41] = PStr [40, 28, 53, 41]"
proof -
  have f: "py_float [28, 53] = Inl ValueError"
    by (simp add: str_eval float_eval)
  show ?thesis
    by (simp add: convert_to_numeric_sse_def parse_number_cell_def str_eval f)
qed

text \<open>
  C2. After commas, spaces and non-breaking spaces are removed, a text that parses as a
  decimal number should give that number. For \<open>1 234\<close> the cleaned text \<open>1234\<close> does
  parse, to 1234, yet \<open>_convert_to_numeric\<close> of \<open>script.py\<close> returns the trimmed text
  \<open>1 234\<close>: concatenating a string and a float raises inside the \<open>try\<close> block and the
  handler returns the text. The variant of \<open>standard_schema_extractor.py\<close> returns the
  cleaned text \<open>1234\<close>, a string as well.
\<close>

theorem convert_to_numeric_plain_number_stays_text:
  "py_float (replace_char 160 (replace_char 32 (replace_char 44 (strip (ustr ''1 234''))))) =
     Inr (FVal 1234) \<and>
   convert_to_numeric (PStr (ustr ''1 234'')) = PStr (ustr ''1 234'') \<and>
   convert_to_numeric_sse (PStr (ustr ''1 234'')) = PStr (ustr ''1234'')"
  by (simp add: convert_to_numeric_sse_def ustr_1_234 str_eval py_float_1234)

text \<open>
  C3 as the specification has it: canonicalizing twice is canonicalizing once, for both
  implementations. It fails for the variant of \<open>standard_schema_extractor.py\<close>, which turns
  \<open>(1,234)\<close> into the number -1234 and that number, through \<open>str\<close>, into the text
  \<open>-1234.0\<close>.
\<close>

theorem convert_to_numeric_sse_not_idempotent:
  "convert_to_numeric_sse (PStr (ustr ''(1,234)'')) = PFloat (FVal (- 1234)) \<and>
   convert_to_numeric_sse (PFloat (FVal (- 1234))) = PStr (ustr ''-1234.0'') \<and>
   convert_to_numeric_sse (convert_to_numeric_sse (PStr (ustr ''(1,234)''))) \<noteq>
     convert_to_numeric_sse (PStr (ustr ''(1,234)''))"
  by (simp add: convert_to_numeric_sse_p1234 convert_to_numeric_sse_m1234)

text \<open>
  C3, amended. The canonicalizer of \<open>script.py\<close> is idempotent: applying it to its own
  result changes nothing, a number is returned unchanged and None stays None. The variant
  of \<open>standard_schema_extractor.py\<close> keeps None, but it has no rule for numbers: from an
  int or a float it returns None or a text, never the number. So whenever the variant
  returns a number, applying it once more gives something else.
\<close>

theorem convert_to_numeric_idempotent:
  "convert_to_numeric (convert_to_numeric x) = convert_to_numeric x \<and>
   convert_to_numeric (PFloat f) = PFloat f \<and>
   convert_to_numeric (PInt i) = PInt i \<and>
   convert_to_numeric PNone = PNone \<and>
   convert_to_numeric_sse PNone = PNone \<and>
   (convert_to_numeric_sse (PInt i) = PNone \<or>
    (\<exists>s. convert_to_numeric_sse (PInt i) = PStr s)) \<and>
   (convert_to_numeric_sse (PFloat f) = PNone \<or>
    (\<exists>s. convert_to_numeric_sse (PFloat f) = PStr s)) \<and>
   (convert_to_numeric_sse y = PFloat g \<longrightarrow>
    convert_to_numeric_sse (convert_to_numeric_sse y) \<noteq> convert_to_numeric_sse y)"
proof -
  have "convert_to_numeric (convert_to_numeric x) = convert_to_numeric x"
  proof (cases x)
    case (PStr v)
    from convert_to_numeric_cases [of v] show ?thesis
    proof (elim disjE exE)
      assume "convert_to_numeric (PStr v) = PStr (strip v)"
      then show ?thesis using convert_to_numeric_strip [of v] PStr by simp
    qed (simp_all add: PStr)
  qed simp_all
  moreover have "convert_to_numeric_sse PNone = PNone"
    by (simp add: convert_to_numeric_sse_def)
  moreover have "convert_to_numeric_sse (convert_to_numeric_sse y) \<noteq> convert_to_numeric_sse y"
    if "convert_to_numeric_sse y = PFloat g"
    using convert_to_numeric_sse_number [of "PFloat g" 0 g] that by auto
  moreover note convert_to_numeric_sse_number [of "PInt i" i f]
    convert_to_numeric_sse_number [of "PFloat f" i f]
  ultimately show ?thesis by simp
qed

theorem convert_to_numeric_idempotent_witness:
  "convert_to_numeric (convert_to_numeric (PStr (ustr ''(1,234)''))) = PFloat (FVal (- 1234)) \<and>
   convert_to_numeric (PFloat (FVal (- 1234))) = PFloat (FVal (- 1234)) \<and>
   convert_to_numeric_sse (PStr (ustr ''(1,234)'')) = PFloat (FVal (- 1234)) \<and>
   convert_to_numeric_sse (convert_to_numeric_sse (PStr (ustr ''(1,234)''))) \<noteq>
     convert_to_numeric_sse (PStr (ustr ''(1,234)''))"
proof -
  note t = convert_to_numeric_idempotent
    [of "PStr (ustr ''(1,234)'')" "FVal (- 1234)" 0 "PStr (ustr ''(1,234)'')" "FVal (- 1234)"]
  have "convert_to_numeric (convert_to_numeric (PStr (ustr ''(1,234)''))) =
        convert_to_numeric (PStr (ustr ''(1,234)''))"
    using t by (rule conjunct1)
  then have a: "convert_to_numeric (convert_to_numeric (PStr (ustr ''(1,234)''))) =
        PFloat (FVal (- 1234))"
    by (simp only: convert_to_numeric_p1234)
  have b: "convert_to_numeric (PFloat (FVal (- 1234))) = PFloat (FVal (- 1234))"
    using t [THEN conjunct2] by (rule conjunct1)
  note c = convert_to_numeric_sse_p1234
  have d: "convert_to_numeric_sse (convert_to_numeric_sse (PStr (ustr ''(1,234)''))) \<noteq>
     convert_to_numeric_sse (PStr (ustr ''(1,234)''))"
    using t [THEN conjunct2, THEN conjunct2, THEN conjunct2, THEN conjunct2, THEN conjunct2,
        THEN conjunct2, THEN conjunct2] c
    by (rule mp)
  show ?thesis using a b c d by (intro conjI)
qed

text \<open>
  C4 as the specification has it: a lone dash, a lone en-dash and \<open>nan\<close> in any letter
  case give None in both implementations. The variant of \<open>standard_schema_extractor.py\<close>
  returns all three as text.
\<close>

theorem convert_to_numeric_sse_keeps_dash:
  "convert_to_numeric_sse (PStr (ustr ''-'')) = PStr (ustr ''-'') \<and>
   convert_to_numeric_sse (PStr [8211]) = PStr [8211] \<and>
   convert_to_numeric_sse (PStr (ustr ''NaN'')) = PStr (ustr ''NaN'')"
proof -
  have "convert_to_numeric_sse (PStr (ustr ''-'')) = PStr (ustr ''-'')"
    by (simp add: convert_to_numeric_sse_def str_eval float_eval)
  moreover have "convert_to_numeric_sse (PStr [8211]) = PStr [8211]"
    by (simp add: convert_to_numeric_sse_def str_eval float_eval decimal_zeros_def)
  moreover have "convert_to_numeric_sse (PStr (ustr ''NaN'')) = PStr (ustr ''NaN'')"
    by (simp add: convert_to_numeric_sse_def str_eval float_eval)
  ultimately show ?thesis by simp
qed

text \<open>
  Which texts give None, in either implementation.
\<close>

lemma convert_to_numeric_none_iff:
  "convert_to_numeric (PStr s) = PNone \<longleftrightarrow>
     strip s = [] \<or> lower (strip s) = ustr ''nan'' \<or> strip s = ustr ''-'' \<or> strip s = [8211]"
  by (simp add: Let_def split: sum.splits)

lemma convert_to_numeric_sse_none_iff:
  "convert_to_numeric_sse (PStr s) = PNone \<longleftrightarrow> strip s = [] \<or> strip s = ustr ''nan''"
  by (simp add: convert_to_numeric_sse_def Let_def split: sum.splits)

text \<open>
  C4, amended. In \<open>script.py\<close> the sentinel rules come before any parsing, on the trimmed
  text: None gives None, and a text gives None exactly when it is empty, is \<open>nan\<close> in any
  letter case, or is a lone dash or a lone en-dash. In the variant of
  \<open>standard_schema_extractor.py\<close> None gives None, and a text gives None exactly when the
  trimmed text is empty or is \<open>nan\<close> in lower case.
\<close>

theorem convert_to_numeric_sentinels:
  "convert_to_numeric PNone = PNone \<and>
   convert_to_numeric (PStr []) = PNone \<and>
   (convert_to_numeric (PStr s) = PNone \<longleftrightarrow>
      strip s = [] \<or> lower (strip s) = ustr ''nan'' \<or> strip s = ustr ''-'' \<or>
      strip s = [8211]) \<and>
   convert_to_numeric_sse PNone = PNone \<and>
   convert_to_numeric_sse (PStr []) = PNone \<and>
   (convert_to_numeric_sse (PStr s) = PNone \<longleftrightarrow> strip s = [] \<or> strip s = ustr ''nan'')"
proof -
  have "convert_to_numeric (PStr []) = PNone" by (simp add: strip_def)
  moreover have "convert_to_numeric_sse PNone = PNone"
    by (simp add: convert_to_numeric_sse_def)
  moreover have "convert_to_numeric_sse (PStr []) = PNone"
    by (simp add: convert_to_numeric_sse_def strip_def)
  ultimately show ?thesis
    using convert_to_numeric_none_iff [of s] convert_to_numeric_sse_none_iff [of s] by simp
qed

theorem convert_to_numeric_sentinels_witness:
  "convert_to_numeric (PStr (ustr '' NaN '')) = PNone \<and>
   convert_to_numeric (PStr [8211]) = PNone \<and>
   convert_to_numeric (PStr (ustr ''-'')) = PNone \<and>
   convert_to_numeric (PStr (ustr ''50'')) \<noteq> PNone \<and>
   convert_to_numeric_sse (PStr (ustr '' nan '')) = PNone \<and>
   convert_to_numeric_sse (PStr (ustr ''  '')) = PNone \<and>
   convert_to_numeric_sse (PStr (ustr ''NaN'')) \<noteq> PNone \<and>
   convert_to_numeric_sse (PStr (ustr ''-'')) \<noteq> PNone \<and>
   convert_to_numeric_sse (PStr [8211]) \<noteq> PNone"
proof -
  note t = convert_to_numeric_sentinels [THEN conjunct2, THEN conjunct2]
  note a = t [THEN conjunct1]
  note b = t [THEN conjunct2, THEN conjunct2, THEN conjunct2]
  have "convert_to_numeric (PStr (ustr '' NaN '')) = PNone"
    by (subst a) (simp add: str_eval)
  moreover have "convert_to_numeric (PStr [8211]) = PNone"
    by (subst a) (simp add: str_eval)
  moreover have "convert_to_numeric (PStr (ustr ''-'')) = PNone"
    by (subst a) (simp add: str_eval)
  moreover have "convert_to_numeric (PStr (ustr ''50'')) \<noteq> PNone"
    by (subst a) (simp add: str_eval)
  moreover have "convert_to_numeric_sse (PStr (ustr '' nan '')) = PNone"
    by (subst b) (simp add: str_eval)
  moreover have "convert_to_numeric_sse (PStr (ustr ''  '')) = PNone"
    by (subst b) (simp add: str_eval)
  moreover have "convert_to_numeric_sse (PStr (ustr ''NaN'')) \<noteq> PNone"
    by (subst b) (simp add: str_eval)
  moreover have "convert_to_numeric_sse (PStr (ustr ''-'')) \<noteq> PNone"
    by (subst b) (simp add: str_eval)
  moreover have "convert_to_numeric_sse (PStr [8211]) \<noteq> PNone"
    by (subst b) (simp add: str_eval)
  ultimately show ?thesis by (intro conjI)
qed

text \<open>
  C9. The parenthesis rule does not look at the sign of what it parses: in each of the
  four parsers of the repository, whenever the trimmed text is enclosed in parentheses and
  its cleaned interior parses, the result is the negation of the parsed interior. So
  \<open>(-5)\<close> gives the positive number 5 in all four.
\<close>

theorem convert_to_numeric_paren_negates:
  "(startswith (strip v) 40 \<and> endswith (strip v) 41 \<and>
    py_float (replace_char 160 (replace_char 32 (replace_char 44 (slice_1_m1 (strip v))))) =
      Inr num \<longrightarrow>
    convert_to_numeric (PStr v) = PFloat (fneg num)) \<and>
   (startswith (strip v) 40 \<and> endswith (strip v) 41 \<and>
    py_float (replace_char 32 (replace_char 44 (slice_1_m1 (strip v)))) = Inr num2 \<longrightarrow>
    convert_to_numeric_sse (PStr v) = PFloat (fneg num2) \<and>
    try_parse_number (PStr v) = PFloat (fneg num2)) \<and>
   (startswith (replace_char 13 (replace_char 10 (strip v))) 40 \<and>
    endswith (replace_char 13 (replace_char 10 (strip v))) 41 \<and>
    py_float (replace_char 32 (replace_char 44
      (slice_1_m1 (replace_char 13 (replace_char 10 (strip v)))))) = Inr num3 \<longrightarrow>
    parse_number_cell v = PFloat (fneg num3)) \<and>
   convert_to_numeric (PStr (ustr ''(-5)'')) = PFloat (FVal 5) \<and>
   convert_to_numeric_sse (PStr (ustr ''(-5)'')) = PFloat (FVal 5) \<and>
   try_parse_number (PStr (ustr ''(-5)'')) = PFloat (FVal 5) \<and>
   parse_number_cell (ustr ''(-5)'') = PFloat (FVal 5)"
proof -
  have "convert_to_numeric (PStr (ustr ''(-5)'')) = PFloat (FVal 5)"
    by (simp add: ustr_pm5 str_eval py_float_m5)
  moreover have "convert_to_numeric_sse (PStr (ustr ''(-5)'')) = PFloat (FVal 5)"
    by (simp add: convert_to_numeric_sse_def ustr_pm5 str_eval py_float_m5)
  moreover have "try_parse_number (PStr (ustr ''(-5)'')) = PFloat (FVal 5)"
    by (simp add: ustr_pm5 str_eval py_float_m5)
  moreover have "parse_number_cell (ustr ''(-5)'') = PFloat (FVal 5)"
    by (simp add: parse_number_cell_def ustr_pm5 str_eval py_float_m5)
  ultimately show ?thesis
    using convert_to_numeric_paren [of v num] convert_to_numeric_sse_paren [of v num2]
      try_parse_number_paren [of v num2] parse_number_cell_paren [of v num3]
    by blast
qed

theorem convert_to_numeric_paren_negates_witness:
  "startswith (strip (ustr ''( -5)'')) 40 \<and> endswith (strip (ustr ''( -5)'')) 41 \<and>
   py_float (replace_char 160 (replace_char 32 (replace_char 44
     (slice_1_m1 (strip (ustr ''( -5)'')))))) = Inr (FVal (- 5)) \<and>
   py_float (replace_char 32 (replace_char 44 (slice_1_m1 (strip (ustr ''( -5)''))))) =
     Inr (FVal (- 5)) \<and>
   replace_char 13 (replace_char 10 (strip (ustr ''( -5)''))) = ustr ''( -5)'' \<and>
   convert_to_numeric (PStr (ustr ''( -5)'')) = PFloat (FVal 5) \<and>
   convert_to_numeric_sse (PStr (ustr ''( -5)'')) = PFloat (FVal 5) \<and>
   try_parse_number (PStr (ustr ''( -5)'')) = PFloat (FVal 5) \<and>
   parse_number_cell (ustr ''( -5)'') = PFloat (FVal 5)"
proof -
  have u: "ustr ''( -5)'' = [40, 32, 45, 53, 41]" by (simp add: ustr_def)
  have s: "strip [40, 32, 45, 53, 41] = [40, 32, 45, 53, 41]" by (simp add: str_eval)
  have r: "replace_char 13 (replace_char 10 [40, 32, 45, 53, 41]) = [40, 32, 45, 53, 41]"
    by (simp add: str_eval)
  have a: "startswith [40, 32, 45, 53, 41] 40" by (simp add: str_eval)
  have b: "endswith [40, 32, 45, 53, 41] 41" by (simp add: str_eval)
  have c: "py_float (replace_char 160 (replace_char 32 (replace_char 44
     (slice_1_m1 [40, 32, 45, 53, 41])))) = Inr (FVal (- 5))"
    by (simp add: str_eval py_float_m5)
  have d: "py_float (replace_char 32 (replace_char 44 (slice_1_m1 [40, 32, 45, 53, 41]))) =
     Inr (FVal (- 5))"
    by (simp add: str_eval py_float_m5)
  have f: "fneg (FVal (- 5)) = FVal 5" by simp
  show ?thesis
    using a b c d convert_to_numeric_paren_negates
      [of "ustr ''( -5)''" "FVal (- 5)" "FVal (- 5)" "FVal (- 5)"]
    unfolding u s r f by blast
qed

section \<open>Properties of the rectangularizer\<close>

lemma pad_while_eq: "pad_while row n e = row @ replicate (n - length row) e"
proof (induction row n e rule: pad_while.induct)
  case (1 row n e)
  show ?case
  proof (cases "length row < n")
    case True
    then have "n - length row = Suc (n - Suc (length row))" by simp
    with True 1 show ?thesis
      by (subst pad_while.simps) (simp add: replicate_app_Cons_same)
  next
    case False
    then show ?thesis by (subst pad_while.simps) simp
  qed
qed

text \<open>
  The padding loop in closed form: the rows visited are extended on the heap, every
  other row is untouched, and the copies collected are the extended rows cut to width.
  A row object that occurs twice is extended once; the second visit finds it long enough.
\<close>

lemma pad_rows_eq:
  "pad_rows w as (h, acc) =
     (\<lambda>x. if x \<in> set as then h x @ replicate (w - length (h x)) (Some []) else h x,
      acc @ map (\<lambda>a. take w (h a @ replicate (w - length (h a)) (Some []))) as)"
proof (induction as arbitrary: h acc)
  case Nil
  then show ?case by simp
next
  case (Cons a as)
  let ?p = "\<lambda>r::cell list. r @ replicate (w - length r) (Some [])"
  let ?h' = "h(a := ?p (h a))"
  have p': "?p (?h' x) = ?p (h x)" for x by simp
  have "pad_rows w (a # as) (h, acc) = pad_rows w as (?h', acc @ [take w (?p (h a))])"
    by (simp add: pad_while_eq)
  also have "\<dots> = (\<lambda>x. if x \<in> set as then ?p (?h' x) else ?h' x,
      (acc @ [take w (?p (h a))]) @ map (\<lambda>a. take w (?p (?h' a))) as)"
    by (rule Cons.IH)
  also have "(\<lambda>x. if x \<in> set as then ?p (?h' x) else ?h' x) =
      (\<lambda>x. if x \<in> set (a # as) then ?p (h x) else h x)"
    by (rule ext) (simp del: append_assoc)
  also have "map (\<lambda>a. take w (?p (?h' a))) as = map (\<lambda>a. take w (?p (h a))) as"
    by (simp only: p')
  finally show ?case by simp
qed





text \<open>
  C10, as stated, fails for the rows the emptiness filter leaves out: with header
  \<open>[A, B]\<close> and body rows \<open>[x]\<close> and \<open>[None]\<close>, the first body row is extended in the
  caller's table and the second still has one cell after the call.
\<close>

theorem convert_table_leaves_empty_row_short:
  "fst (convert_table_to_dataframe
      (no_rows(0 := [Some (ustr ''A''), Some (ustr ''B'')], 1 := [Some (ustr ''x'')],
         2 := [None]))
      [0, 1, 2]) 1 = [Some (ustr ''x''), Some []] \<and>
   fst (convert_table_to_dataframe
      (no_rows(0 := [Some (ustr ''A''), Some (ustr ''B'')], 1 := [Some (ustr ''x'')],
         2 := [None]))
      [0, 1, 2]) 2 = [None]"
  by (simp add: convert_table_to_dataframe_def Let_def truthy_def ustr_def pad_rows_eq
      no_rows_def)

text \<open>
  C10, amended. The rectangularizer changes the caller's table in place: after the call a
  body row that has a truthy cell has been extended with empty strings up to the header
  width (when it was shorter), and every other row, that is the header, a body row
  without a truthy cell, any row when the table has fewer than two rows, holds the cells
  it held before.
\<close>

theorem convert_table_mutates_rows:
  "fst (convert_table_to_dataframe h table) a =
     (if 2 \<le> length table \<and> a \<in> set (tl table) \<and> list_ex truthy (h a)
      then h a @ replicate (length (h (hd table)) - length (h a)) (Some [])
      else h a)"
  by (auto simp: convert_table_to_dataframe_def Let_def pad_rows_eq filter_empty_conv)

theorem convert_table_mutates_rows_witness:
  "fst (convert_table_to_dataframe
      (no_rows(0 := [Some (ustr ''Item''), Some (ustr ''2023''), Some (ustr ''2024'')],
         1 := [Some (ustr ''Total'')]))
      [0, 1]) 1 = [Some (ustr ''Total''), Some [], Some []]"
  using convert_table_mutates_rows
    [of "no_rows(0 := [Some (ustr ''Item''), Some (ustr ''2023''), Some (ustr ''2024'')],
         1 := [Some (ustr ''Total'')])" "[0, 1]" 1]
  by (simp add: truthy_def ustr_def numeral_2_eq_2 no_rows_def)

section \<open>Properties of the row classifier\<close>

lemma starts_iff: "starts k t \<longleftrightarrow> (\<exists>s. t = k @ s)"
  by (induction k t rule: starts.induct) auto

lemma str_in_iff: "str_in k t \<longleftrightarrow> (\<exists>p s. t = p @ k @ s)"
proof (induction t)
  case Nil
  then show ?case by auto
next
  case (Cons c cs)
  show ?case
  proof
    assume "str_in k (c # cs)"
    then consider "starts k (c # cs)" | "str_in k cs" by auto
    then show "\<exists>p s. c # cs = p @ k @ s"
    proof cases
      case 1
      then obtain s where "c # cs = k @ s" by (auto simp: starts_iff)
      then have "c # cs = [] @ k @ s" by simp
      then show ?thesis by blast
    next
      case 2
      then obtain p s where "cs = p @ k @ s" using Cons.IH by blast
      then have "c # cs = (c # p) @ k @ s" by simp
      then show ?thesis by blast
    qed
  next
    assume "\<exists>p s. c # cs = p @ k @ s"
    then obtain p s where e: "c # cs = p @ k @ s" by blast
    show "str_in k (c # cs)"
    proof (cases p)
      case Nil
      with e have "starts k (c # cs)" by (auto simp: starts_iff)
      then show ?thesis by simp
    next
      case (Cons a p')
      with e have "cs = p' @ k @ s" by simp
      then have "str_in k cs" using Cons.IH by blast
      then show ?thesis by simp
    qed
  qed
qed

lemma any_keyword_in_iff:
  "any_keyword_in kws t \<longleftrightarrow> (\<exists>k \<in> set kws. \<exists>p s. t = p @ k @ s)"
  by (simp add: any_keyword_in_def list_ex_iff str_in_iff)

lemma default_keywords_nonempty: "k \<in> set default_keywords \<Longrightarrow> k \<noteq> []"
  by (auto simp: default_keywords_def ustr_def)

lemma is_total_or_subtotal_iff:
  "is_total_or_subtotal c \<longleftrightarrow> (\<exists>k \<in> set default_keywords. \<exists>p s. lower c = p @ k @ s)"
proof (cases "c = []")
  case True
  then show ?thesis
    using default_keywords_nonempty by (auto simp: is_total_or_subtotal_def lower_def)
next
  case False
  then show ?thesis by (simp add: is_total_or_subtotal_def any_keyword_in_iff)
qed

lemma balance_row_emphasis:
  "create_excel_file_role 1 [ustr ''Balance as at 31 December 2023'', ustr ''1,000''] =
     Emphasis"
  by (simp add: create_excel_file_role_def is_total_or_subtotal_def any_keyword_in_def
      default_keywords_def lower_def lower_cp_def ustr_def)

text \<open>
  C8. The row at table position 0 is the header. Any other row is an emphasis row exactly
  when the lower-cased text of its first cell contains one of the keywords, and an
  ordinary row otherwise; so the role of a row that is not the header depends on its
  first cell alone, not on its other cells nor on where it stands. The default keyword
  list is the one of \<open>_is_total_or_subtotal\<close>; \<open>create_excel\<close> of \<open>pymupdf_extractor.py\<close>
  follows the same rule with its narrower list, counting rows from 1.
\<close>

theorem row_role_rule:
  "default_keywords =
     [ustr ''balance'', ustr ''comprehensive'', ustr ''payment'', ustr ''contribution'',
      ustr ''sale''] \<and>
   create_excel_file_role 0 row = Header \<and>
   (0 < pos \<longrightarrow>
      (create_excel_file_role pos (c # cs) = Emphasis \<longleftrightarrow>
         (\<exists>k \<in> set default_keywords. \<exists>p s. lower c = p @ k @ s)) \<and>
      (create_excel_file_role pos (c # cs) \<noteq> Emphasis \<longrightarrow>
         create_excel_file_role pos (c # cs) = Ordinary)) \<and>
   (0 < pos \<and> 0 < pos' \<longrightarrow>
      create_excel_file_role pos (c # cs) = create_excel_file_role pos' (c # cs')) \<and>
   create_excel_role 1 row = Header \<and>
   (row_idx \<noteq> 1 \<longrightarrow>
      (create_excel_role row_idx (c # cs) = Emphasis \<longleftrightarrow>
         (\<exists>k \<in> {ustr ''balance as at'', ustr ''balance at''}. \<exists>p s. lower c = p @ k @ s)) \<and>
      (create_excel_role row_idx (c # cs) \<noteq> Emphasis \<longrightarrow>
         create_excel_role row_idx (c # cs) = Ordinary))"
  by (simp add: create_excel_file_role_def is_total_or_subtotal_iff create_excel_role_def
      any_keyword_in_iff default_keywords_def)

theorem row_role_rule_witness:
  "(0::nat) < 1 \<and> (0::nat) < 2 \<and>
   create_excel_file_role 2 [ustr ''Balance as at 31 December 2023''] = Emphasis \<and>
   (\<exists>k \<in> set default_keywords. \<exists>p s.
      lower (ustr ''Balance as at 31 December 2023'') = p @ k @ s)"
proof -
  let ?c = "ustr ''Balance as at 31 December 2023''"
  note r = row_role_rule [where pos = 1 and c = ?c and cs = "[ustr ''1,000'']"
      and pos' = 2 and cs' = "[]"]
  have p1: "(0::nat) < 1" and p2: "(0::nat) < 2" by simp_all
  note r3 = r [THEN conjunct2, THEN conjunct2]
  have i: "create_excel_file_role 1 [?c, ustr ''1,000''] = Emphasis \<longleftrightarrow>
      (\<exists>k \<in> set default_keywords. \<exists>p s. lower ?c = p @ k @ s)"
    by (rule r3 [THEN conjunct1, THEN mp, OF p1, THEN conjunct1])
  have d: "create_excel_file_role 1 [?c, ustr ''1,000''] = create_excel_file_role 2 [?c]"
    by (rule r3 [THEN conjunct2, THEN conjunct1, THEN mp, OF conjI [OF p1 p2]])
  have e: "\<exists>k \<in> set default_keywords. \<exists>p s. lower ?c = p @ k @ s"
    by (rule iffD1 [OF i balance_row_emphasis])
  have f: "create_excel_file_role 2 [?c] = Emphasis"
    by (rule trans [OF d [symmetric] balance_row_emphasis])
  show ?thesis by (intro conjI p1 p2 e f)
qed

section \<open>Properties of the schema mapper\<close>

lemma str_nat_digit: "n < 10 \<Longrightarrow> str_nat n = [digit_char n]"
  by (subst str_nat.simps) simp

lemma str_nat_1_4:
  "str_nat (Suc 0) = ''1''" "str_nat 2 = ''2''" "str_nat 3 = ''3''" "str_nat 4 = ''4''"
  by (simp_all add: str_nat_digit digit_char_def)

lemma upt_1_5: "[Suc 0..<5] = [Suc 0, 2, 3, 4]"
  by (simp add: upt_rec)

lemmas make_row_eval = make_row_def Let_def set_years_def set_none_def set_dim_def upt_1_5
  str_nat_1_4

lemma make_row_primary_key:
  "make_row today t md i pk row ''primary_key'' = Some (Val (PInt pk))"
  by (simp add: make_row_eval)

lemma make_row_fields:
  "(make_row today t md i pk row ''dim_1_name'', make_row today t md i pk row ''2022'',
    make_row today t md i pk row ''2023'', make_row today t md i pk row ''2024'') =
   (Some (case row of [] \<Rightarrow> Val PNone | c # _ \<Rightarrow> py_str c),
    Some (Val (if 6 \<le> length row then row ! (length row - 3) else PNone)),
    Some (Val (if 5 \<le> length row then row ! (length row - 2) else PNone)),
    Some (Val (if 4 \<le> length row then row ! (length row - 1) else PNone)))"
  by (cases row) (simp_all add: make_row_eval)

lemma rows_loop_map:
  assumes "\<And>t md i pk row. G (make_row today t md i pk row) = g row"
  shows "map G (fst (rows_loop today t md i rs (out, pk))) = map G out @ map g rs"
  by (induction rs arbitrary: i out pk) (simp_all add: assms)

lemma tables_loop_map:
  assumes "\<And>t md i pk row. G (make_row today t md i pk row) = g row"
  shows "map G (fst (tables_loop today t tms st)) =
         map G (fst st) @ map g (concat (map (\<lambda>(df, md). rows df) tms))"
proof (induction tms arbitrary: t st)
  case Nil
  then show ?case by simp
next
  case (Cons tm tms)
  obtain df md where tm: "tm = (df, md)" by (cases tm)
  obtain out pk where st: "st = (out, pk)" by (cases st)
  show ?case
    by (simp add: tm st Cons.IH rows_loop_map [where G = G and g = g, OF assms])
qed

lemma rows_loop_keys:
  "snd (rows_loop today t md i rs (out, int j)) = int (j + length rs) \<and>
   map (\<lambda>r. r ''primary_key'') (fst (rows_loop today t md i rs (out, int j))) =
     map (\<lambda>r. r ''primary_key'') out @ map (\<lambda>k. Some (Val (PInt (int k)))) [j..<j + length rs]"
proof (induction rs arbitrary: i out j)
  case Nil
  then show ?case by simp
next
  case (Cons r rs)
  have s: "int j + 1 = int (Suc j)" by simp
  have b: "j + length (r # rs) = Suc j + length rs" by simp
  have "j < Suc j + length rs" by simp
  then have u: "[j..<Suc j + length rs] = j # [Suc j..<Suc j + length rs]"
    by (rule upt_conv_Cons)
  show ?case
    unfolding rows_loop.simps s b u
    using Cons.IH [of "Suc i" "out @ [make_row today t md i (int j) r]" "Suc j"]
    by (simp add: make_row_primary_key del: of_nat_Suc of_nat_add upt_Suc)
qed

lemma tables_loop_keys:
  "snd (tables_loop today t tms (out, int j)) =
     int (j + length (concat (map (\<lambda>(df, md). rows df) tms))) \<and>
   map (\<lambda>r. r ''primary_key'') (fst (tables_loop today t tms (out, int j))) =
     map (\<lambda>r. r ''primary_key'') out @
     map (\<lambda>k. Some (Val (PInt (int k))))
       [j..<j + length (concat (map (\<lambda>(df, md). rows df) tms))]"
proof (induction tms arbitrary: t out j)
  case Nil
  then show ?case by simp
next
  case (Cons tm tms)
  obtain df md where tm: "tm = (df, md)" by (cases tm)
  define st where "st = rows_loop today t md 0 (rows df) (out, int j)"
  define n where "n = length (rows df)"
  define m where "m = length (concat (map (\<lambda>(df, md). rows df) tms))"
  define K where "K = (\<lambda>r::row_data. r ''primary_key'')"
  define F where "F = (\<lambda>k. Some (Val (PInt (int k))))"
  have k1: "snd st = int (j + n)"
    and k2: "map K (fst st) = map K out @ map F [j..<j + n]"
    using rows_loop_keys [of today t md 0 "rows df" out j]
    unfolding st_def n_def K_def F_def by (rule conjunct1, rule conjunct2)
  have st: "st = (fst st, int (j + n))"
    unfolding k1 [symmetric] by simp
  have ih1: "snd (tables_loop today (Suc t) tms st) = int (j + n + m)"
    and ih2: "map K (fst (tables_loop today (Suc t) tms st)) =
      map K (fst st) @ map F [j + n..<j + n + m]"
    using Cons.IH [of "Suc t" "fst st" "j + n"]
    unfolding st [symmetric] m_def K_def F_def by (rule conjunct1, rule conjunct2)
  have a: "tables_loop today t (tm # tms) (out, int j) = tables_loop today (Suc t) tms st"
    unfolding tm st_def by simp
  have len: "j + length (concat (map (\<lambda>(df, md). rows df) (tm # tms))) = j + n + m"
    unfolding tm n_def m_def by simp
  have sp: "[j..<j + n + m] = [j..<j + n] @ [j + n..<j + n + m]"
    by (rule upt_add_eq_append) simp
  have s2: "map K (fst (tables_loop today (Suc t) tms st)) = map K out @ map F [j..<j + n + m]"
    unfolding ih2 k2 sp by simp
  show ?case
    unfolding a len using ih1 s2 unfolding K_def F_def by (rule conjI)
qed

lemma transform_fields:
  "map (\<lambda>r. (r ''dim_1_name'', r ''2022'', r ''2023'', r ''2024''))
     (transform_to_standard_schema today dfs mds) =
   map (\<lambda>row.
          (Some (case row of [] \<Rightarrow> Val PNone | c # _ \<Rightarrow> py_str c),
           Some (Val (if 6 \<le> length row then row ! (length row - 3) else PNone)),
           Some (Val (if 5 \<le> length row then row ! (length row - 2) else PNone)),
           Some (Val (if 4 \<le> length row then row ! (length row - 1) else PNone))))
     (concat (map (\<lambda>(df, md). rows df) (zip dfs mds)))"
  unfolding transform_to_standard_schema_def
  by (subst tables_loop_map [where g = "\<lambda>row.
          (Some (case row of [] \<Rightarrow> Val PNone | c # _ \<Rightarrow> py_str c),
           Some (Val (if 6 \<le> length row then row ! (length row - 3) else PNone)),
           Some (Val (if 5 \<le> length row then row ! (length row - 2) else PNone)),
           Some (Val (if 4 \<le> length row then row ! (length row - 1) else PNone)))"])
    (simp_all add: make_row_fields)

lemma single_record:
  assumes "map f xs = [y]"
  shows "length xs = 1 \<and> f (hd xs) = y"
  using assms by (cases xs) auto

lemma ustr_share: "ustr ''Share capital'' = [83,104,97,114,101,32,99,97,112,105,116,97,108]"
  by (simp add: ustr_def)
lemma ustr_p100: "ustr ''(100)'' = [40,49,48,48,41]"
  by (simp add: ustr_def)
lemma ustr_50: "ustr ''50'' = [53,48]"
  by (simp add: ustr_def)

lemma py_float_share: "py_float (ustr ''Sharecapital'') = Inl ValueError"
  by (simp add: str_eval float_eval)
lemma py_float_100: "py_float [49,48,48] = Inr (FVal 100)"
  by (simp add: str_eval float_eval make_float_plain)
lemma py_float_50: "py_float [53,48] = Inr (FVal 50)"
  by (simp add: str_eval float_eval make_float_plain)

lemma convert_share: "convert_to_numeric (PStr (ustr ''Share capital'')) = PStr (ustr ''Share capital'')"
  using py_float_share by (simp add: str_eval)
lemma convert_p100: "convert_to_numeric (PStr (ustr ''(100)'')) = PFloat (FVal (- 100))"
  by (simp add: ustr_p100 str_eval py_float_100)
lemma convert_50: "convert_to_numeric (PStr (ustr ''50'')) = PStr (ustr ''50'')"
  by (simp add: ustr_50 str_eval py_float_50)

lemma scenario_dataframe:
  "snd (convert_table_to_dataframe
      (no_rows(0 := [Some (ustr ''Item''), Some (ustr ''2023''), Some (ustr ''2024'')],
               1 := [Some (ustr ''Share capital''), Some (ustr ''(100)''), Some (ustr ''50'')]))
      [0, 1]) =
   Some \<lparr>columns = [Some (ustr ''Item''), Some (ustr ''2023''), Some (ustr ''2024'')],
         rows = [[PStr (ustr ''Share capital''), PStr (ustr ''(100)''), PStr (ustr ''50'')]]\<rparr>"
  by (simp add: convert_table_to_dataframe_def Let_def truthy_def ustr_def pad_rows_eq
      clean_dataframe_def DataFrame_def dropna_rows_def dropna_columns_def map_values_def
      column_mask_def select_def isna_def as_value_def replace_empty_def strip_def isspace_def
      no_rows_def)

lemma scenario_converted:
  "convert_numeric_columns
     \<lparr>columns = [Some (ustr ''Item''), Some (ustr ''2023''), Some (ustr ''2024'')],
      rows = [[PStr (ustr ''Share capital''), PStr (ustr ''(100)''), PStr (ustr ''50'')]]\<rparr> =
   \<lparr>columns = [Some (ustr ''Item''), Some (ustr ''2023''), Some (ustr ''2024'')],
    rows = [[PStr (ustr ''Share capital''), PFloat (FVal (- 100)), PStr (ustr ''50'')]]\<rparr>"
  unfolding convert_numeric_columns_def map_values_def
  by (simp add: convert_share convert_p100 convert_50 del: convert_to_numeric.simps)

text \<open>
  C1, as stated, fails on the row of scenario 1. The raw table with header
  \<open>[Item, 2023, 2024]\<close> and body row \<open>[Share capital, (100), 50]\<close> becomes a table of one
  row of three cells; the mapper emits one record for it, labelled \<open>Share capital\<close>, and
  leaves all three period fields None, because a row needs four cells before its last cell
  is stored as a period value.
\<close>

theorem three_cell_row_has_no_period_fields:
  "snd (convert_table_to_dataframe
      (no_rows(0 := [Some (ustr ''Item''), Some (ustr ''2023''), Some (ustr ''2024'')],
               1 := [Some (ustr ''Share capital''), Some (ustr ''(100)''), Some (ustr ''50'')]))
      [0, 1]) =
     Some \<lparr>columns = [Some (ustr ''Item''), Some (ustr ''2023''), Some (ustr ''2024'')],
           rows = [[PStr (ustr ''Share capital''), PStr (ustr ''(100)''), PStr (ustr ''50'')]]\<rparr> \<and>
   convert_numeric_columns
     \<lparr>columns = [Some (ustr ''Item''), Some (ustr ''2023''), Some (ustr ''2024'')],
      rows = [[PStr (ustr ''Share capital''), PStr (ustr ''(100)''), PStr (ustr ''50'')]]\<rparr> =
     \<lparr>columns = [Some (ustr ''Item''), Some (ustr ''2023''), Some (ustr ''2024'')],
      rows = [[PStr (ustr ''Share capital''), PFloat (FVal (- 100)), PStr (ustr ''50'')]]\<rparr> \<and>
   length (transform_to_standard_schema (ustr ''2025-01-01'')
     [\<lparr>columns = [Some (ustr ''Item''), Some (ustr ''2023''), Some (ustr ''2024'')],
       rows = [[PStr (ustr ''Share capital''), PFloat (FVal (- 100)), PStr (ustr ''50'')]]\<rparr>]
     [\<lparr>page = 8, table_index = 0, n_rows = 1, n_columns = 3\<rparr>]) = 1 \<and>
   (hd (transform_to_standard_schema (ustr ''2025-01-01'')
     [\<lparr>columns = [Some (ustr ''Item''), Some (ustr ''2023''), Some (ustr ''2024'')],
       rows = [[PStr (ustr ''Share capital''), PFloat (FVal (- 100)), PStr (ustr ''50'')]]\<rparr>]
     [\<lparr>page = 8, table_index = 0, n_rows = 1, n_columns = 3\<rparr>]) ''dim_1_name'',
    hd (transform_to_standard_schema (ustr ''2025-01-01'')
     [\<lparr>columns = [Some (ustr ''Item''), Some (ustr ''2023''), Some (ustr ''2024'')],
       rows = [[PStr (ustr ''Share capital''), PFloat (FVal (- 100)), PStr (ustr ''50'')]]\<rparr>]
     [\<lparr>page = 8, table_index = 0, n_rows = 1, n_columns = 3\<rparr>]) ''2022'',
    hd (transform_to_standard_schema (ustr ''2025-01-01'')
     [\<lparr>columns = [Some (ustr ''Item''), Some (ustr ''2023''), Some (ustr ''2024'')],
       rows = [[PStr (ustr ''Share capital''), PFloat (FVal (- 100)), PStr (ustr ''50'')]]\<rparr>]
     [\<lparr>page = 8, table_index = 0, n_rows = 1, n_columns = 3\<rparr>]) ''2023'',
    hd (transform_to_standard_schema (ustr ''2025-01-01'')
     [\<lparr>columns = [Some (ustr ''Item''), Some (ustr ''2023''), Some (ustr ''2024'')],
       rows = [[PStr (ustr ''Share capital''), PFloat (FVal (- 100)), PStr (ustr ''50'')]]\<rparr>]
     [\<lparr>page = 8, table_index = 0, n_rows = 1, n_columns = 3\<rparr>]) ''2024'') =
   (Some (Val (PStr (ustr ''Share capital''))), Some (Val PNone), Some (Val PNone),
    Some (Val PNone))"
proof -
  let ?D = "\<lparr>columns = [Some (ustr ''Item''), Some (ustr ''2023''), Some (ustr ''2024'')],
       rows = [[PStr (ustr ''Share capital''), PFloat (FVal (- 100)), PStr (ustr ''50'')]]\<rparr>"
  let ?M = "\<lparr>page = 8, table_index = 0, n_rows = 1, n_columns = 3\<rparr>"
  let ?out = "transform_to_standard_schema (ustr ''2025-01-01'') [?D] [?M]"
  have "map (\<lambda>r. (r ''dim_1_name'', r ''2022'', r ''2023'', r ''2024'')) ?out =
      [(Some (Val (PStr (ustr ''Share capital''))), Some (Val PNone), Some (Val PNone),
        Some (Val PNone))]"
    by (subst transform_fields) simp
  then have "length ?out = 1 \<and>
      (hd ?out ''dim_1_name'', hd ?out ''2022'', hd ?out ''2023'', hd ?out ''2024'') =
      (Some (Val (PStr (ustr ''Share capital''))), Some (Val PNone), Some (Val PNone),
        Some (Val PNone))"
    by (rule single_record)
  with scenario_dataframe scenario_converted show ?thesis by (intro conjI) blast+
qed

text \<open>
  C1, amended. The records come out one per row, in table-then-row order. In each, the
  first dimension label is the text of the row's first cell; the last cell is stored under
  2024 only when the row has at least four cells, the second-to-last under 2023 only when it
  has at least five, the third-to-last under 2022 only when it has at least six; a period
  field that is not stored stays None.
\<close>

theorem period_fields_by_row_length:
  "map (\<lambda>r. (r ''dim_1_name'', r ''2022'', r ''2023'', r ''2024''))
     (transform_to_standard_schema today dfs mds) =
   map (\<lambda>row.
          (Some (case row of [] \<Rightarrow> Val PNone | c # _ \<Rightarrow> py_str c),
           Some (Val (if 6 \<le> length row then row ! (length row - 3) else PNone)),
           Some (Val (if 5 \<le> length row then row ! (length row - 2) else PNone)),
           Some (Val (if 4 \<le> length row then row ! (length row - 1) else PNone))))
     (concat (map (\<lambda>(df, md). rows df) (zip dfs mds)))"
  by (rule transform_fields)

theorem period_fields_by_row_length_witness:
  "map (\<lambda>r. (r ''dim_1_name'', r ''2022'', r ''2023'', r ''2024''))
     (transform_to_standard_schema (ustr ''2025-01-01'')
        [\<lparr>columns = [Some (ustr ''Item''), None, None, Some (ustr ''2022''),
                     Some (ustr ''2023''), Some (ustr ''2024'')],
          rows = [[PStr (ustr ''Revenue''), PNone, PNone, PFloat (FVal (- 1)),
                   PFloat (FVal (- 2)), PFloat (FVal (- 3))]]\<rparr>]
        [\<lparr>page = 8, table_index = 0, n_rows = 1, n_columns = 6\<rparr>]) =
   [(Some (Val (PStr (ustr ''Revenue''))), Some (Val (PFloat (FVal (- 1)))),
     Some (Val (PFloat (FVal (- 2)))), Some (Val (PFloat (FVal (- 3)))))]"
  using period_fields_by_row_length [of "ustr ''2025-01-01''"
      "[\<lparr>columns = [Some (ustr ''Item''), None, None, Some (ustr ''2022''),
                     Some (ustr ''2023''), Some (ustr ''2024'')],
          rows = [[PStr (ustr ''Revenue''), PNone, PNone, PFloat (FVal (- 1)),
                   PFloat (FVal (- 2)), PFloat (FVal (- 3))]]\<rparr>]"
      "[\<lparr>page = 8, table_index = 0, n_rows = 1, n_columns = 6\<rparr>]"]
  by simp

text \<open>
  C7. Over one whole run the primary keys of the emitted records are 1, 2, 3 and so on,
  one more per record, through all tables without a reset; there is one record per row of
  every table.
\<close>

theorem primary_keys_dense:
  "map (\<lambda>r. r ''primary_key'') (transform_to_standard_schema today dfs mds) =
     map (\<lambda>k. Some (Val (PInt (int k))))
       [1..<Suc (length (transform_to_standard_schema today dfs mds))] \<and>
   length (transform_to_standard_schema today dfs mds) =
     length (concat (map (\<lambda>(df, md). rows df) (zip dfs mds)))"
proof -
  let ?tms = "zip dfs mds"
  let ?n = "length (concat (map (\<lambda>(df, md). rows df) ?tms))"
  let ?out = "transform_to_standard_schema today dfs mds"
  have "map (\<lambda>r. ()) ?out = map (\<lambda>r. ()) (concat (map (\<lambda>(df, md). rows df) ?tms))"
    unfolding transform_to_standard_schema_def
    by (subst tables_loop_map [where g = "\<lambda>r. ()"]) simp_all
  then have "length (map (\<lambda>r. ()) ?out) =
      length (map (\<lambda>r. ()) (concat (map (\<lambda>(df, md). rows df) ?tms)))"
    by (rule arg_cong)
  then have len: "length ?out = ?n" by (simp only: length_map)
  have one: "(1::int) = int 1" by simp
  have "map (\<lambda>r. r ''primary_key'') ?out =
      map (\<lambda>k. Some (Val (PInt (int k)))) [1..<1 + ?n]"
    unfolding transform_to_standard_schema_def one
    using tables_loop_keys [of today 0 ?tms "[]" 1, THEN conjunct2] by simp
  then show ?thesis using len by simp
qed

theorem primary_keys_dense_witness:
  "map (\<lambda>r. r ''primary_key'')
     (transform_to_standard_schema (ustr ''2025-01-01'')
        [\<lparr>columns = [Some (ustr ''Item'')], rows = [[PStr (ustr ''a'')], [PStr (ustr ''b'')]]\<rparr>,
         \<lparr>columns = [Some (ustr ''Item'')], rows = [[PStr (ustr ''c'')]]\<rparr>]
        [\<lparr>page = 8, table_index = 0, n_rows = 2, n_columns = 1\<rparr>,
         \<lparr>page = 9, table_index = 0, n_rows = 1, n_columns = 1\<rparr>]) =
   [Some (Val (PInt 1)), Some (Val (PInt 2)), Some (Val (PInt 3))]"
proof -
  let ?out = "transform_to_standard_schema (ustr ''2025-01-01'')
        [\<lparr>columns = [Some (ustr ''Item'')], rows = [[PStr (ustr ''a'')], [PStr (ustr ''b'')]]\<rparr>,
         \<lparr>columns = [Some (ustr ''Item'')], rows = [[PStr (ustr ''c'')]]\<rparr>]
        [\<lparr>page = 8, table_index = 0, n_rows = 2, n_columns = 1\<rparr>,
         \<lparr>page = 9, table_index = 0, n_rows = 1, n_columns = 1\<rparr>]"
  note t = primary_keys_dense [of "ustr ''2025-01-01''"
        "[\<lparr>columns = [Some (ustr ''Item'')], rows = [[PStr (ustr ''a'')], [PStr (ustr ''b'')]]\<rparr>,
         \<lparr>columns = [Some (ustr ''Item'')], rows = [[PStr (ustr ''c'')]]\<rparr>]"
        "[\<lparr>page = 8, table_index = 0, n_rows = 2, n_columns = 1\<rparr>,
         \<lparr>page = 9, table_index = 0, n_rows = 1, n_columns = 1\<rparr>]"]
  from t have len: "length ?out = 3" by simp
  have u: "[1..<Suc 3] = [1, 2, 3]" by (simp add: upt_rec)
  from t show ?thesis unfolding len u by simp
qed

section \<open>The row width through the pipeline\<close>

lemma length_column_mask:
  "\<forall>r \<in> set rs. length r = w \<Longrightarrow> length (column_mask w rs) = w"
  unfolding column_mask_def by (induction rs) simp_all

lemma length_select:
  "length keep = length xs \<Longrightarrow> length (select keep xs) = length (filter id keep)"
proof (induction keep arbitrary: xs)
  case Nil
  then show ?case by (simp add: select_def)
next
  case (Cons k ks)
  then obtain y ys where "xs = y # ys" by (cases xs) auto
  with Cons show ?case by (simp add: select_def)
qed

lemma clean_dataframe_width:
  assumes c: "length (columns df) = w" and r: "\<forall>r \<in> set (rows df). length r = w"
  shows "length (columns (clean_dataframe df)) \<le> w \<and>
         (\<forall>r \<in> set (rows (clean_dataframe df)).
            length r = length (columns (clean_dataframe df)))"
proof -
  define keep where "keep = column_mask w (filter (\<lambda>r. \<not> list_all isna r) (rows df))"
  have k: "length keep = w"
    unfolding keep_def using r by (intro length_column_mask) simp
  have cols: "columns (clean_dataframe df) = select keep (columns df)"
    by (simp add: clean_dataframe_def map_values_def dropna_columns_def dropna_rows_def
        Let_def keep_def c)
  have rws: "rows (clean_dataframe df) =
      map (map replace_empty) (map (map strip_value)
        (map (select keep) (filter (\<lambda>r. \<not> list_all isna r) (rows df))))"
    by (simp add: clean_dataframe_def map_values_def dropna_columns_def dropna_rows_def
        Let_def keep_def c)
  have lc: "length (select keep (columns df)) = length (filter id keep)"
    using k c by (intro length_select) simp
  have lr: "length (select keep x) = length (filter id keep)" if "x \<in> set (rows df)" for x
    using k r that by (intro length_select) simp
  have "length (filter id keep) \<le> w"
    using k length_filter_le [of id keep] by simp
  then show ?thesis
    unfolding cols rws lc using lr by auto
qed

lemma column_mask_nth:
  assumes "\<forall>r \<in> set rs. length r = w" and "j < w"
  shows "column_mask w rs ! j \<longleftrightarrow> (\<exists>r \<in> set rs. \<not> isna (r ! j))"
  using assms
proof (induction rs)
  case Nil
  then show ?case by (simp add: column_mask_def)
next
  case (Cons r rs)
  have l: "length (column_mask w rs) = w"
    using Cons.prems by (intro length_column_mask) simp
  have "column_mask w (r # rs) = map2 (\<or>) (map (\<lambda>v. \<not> isna v) r) (column_mask w rs)"
    by (simp add: column_mask_def)
  then have "column_mask w (r # rs) ! j \<longleftrightarrow> \<not> isna (r ! j) \<or> column_mask w rs ! j"
    using Cons.prems l by simp
  then show ?case using Cons by simp
qed

text \<open>Selecting by a mask is taking the sublist at the positions the mask marks.\<close>

lemma select_nths:
  "length keep = length xs \<Longrightarrow> select keep xs = nths xs {j. j < length keep \<and> keep ! j}"
proof (induction keep arbitrary: xs)
  case Nil
  then show ?case by (simp add: select_def)
next
  case (Cons k ks)
  then obtain y ys where xs: "xs = y # ys" by (cases xs) auto
  have ih: "select ks ys = nths ys {j. j < length ks \<and> ks ! j}"
    using Cons xs by simp
  have s: "{j. Suc j \<in> {j. j < length (k # ks) \<and> (k # ks) ! j}} = {j. j < length ks \<and> ks ! j}"
    by auto
  have "select (k # ks) (y # ys) = (if k then [y] else []) @ select ks ys"
    by (simp add: select_def)
  also have "\<dots> = nths (y # ys) {j. j < length (k # ks) \<and> (k # ks) ! j}"
    unfolding nths_Cons s ih by simp
  finally show ?case using xs by simp
qed

lemma nths_cong_below:
  assumes "\<And>j. j < length xs \<Longrightarrow> j \<in> A \<longleftrightarrow> j \<in> B"
  shows "nths xs A = nths xs B"
proof -
  have "filter (\<lambda>p. snd p \<in> A) (zip xs [0..<length xs]) =
        filter (\<lambda>p. snd p \<in> B) (zip xs [0..<length xs])"
  proof (rule filter_cong [OF refl])
    fix p assume m: "p \<in> set (zip xs [0..<length xs])"
    obtain a b where p: "p = (a, b)" by (cases p)
    from m have "b \<in> set [0..<length xs]" unfolding p by (rule set_zip_rightD)
    then show "(snd p \<in> A) = (snd p \<in> B)" using assms p by simp
  qed
  then show ?thesis by (simp add: nths_def)
qed

text \<open>The columns that cleaning keeps: those in which some row with a value has a value.\<close>

lemma clean_dataframe_columns:
  assumes c: "length (columns df) = w" and r: "\<forall>r \<in> set (rows df). length r = w"
  shows "columns (clean_dataframe df) =
         nths (columns df) {j. \<exists>r \<in> set (rows df). \<not> isna (r ! j)}"
proof -
  let ?rs = "filter (\<lambda>r. \<not> list_all isna r) (rows df)"
  define keep where "keep = column_mask w ?rs"
  have rs: "\<forall>r \<in> set ?rs. length r = w" using r by simp
  have k: "length keep = w"
    unfolding keep_def using rs by (rule length_column_mask)
  have cols: "columns (clean_dataframe df) = select keep (columns df)"
    by (simp add: clean_dataframe_def map_values_def dropna_columns_def dropna_rows_def
        Let_def keep_def c)
  have "select keep (columns df) = nths (columns df) {j. j < length keep \<and> keep ! j}"
    using k c by (intro select_nths) simp
  also have "\<dots> = nths (columns df) {j. \<exists>r \<in> set (rows df). \<not> isna (r ! j)}"
  proof (rule nths_cong_below)
    fix j assume j: "j < length (columns df)"
    then have jw: "j < w" using c by simp
    have "keep ! j \<longleftrightarrow> (\<exists>r \<in> set ?rs. \<not> isna (r ! j))"
      unfolding keep_def using rs jw by (rule column_mask_nth)
    also have "\<dots> \<longleftrightarrow> (\<exists>r \<in> set (rows df). \<not> isna (r ! j))"
    proof
      assume "\<exists>r \<in> set ?rs. \<not> isna (r ! j)"
      then show "\<exists>r \<in> set (rows df). \<not> isna (r ! j)" by auto
    next
      assume "\<exists>r \<in> set (rows df). \<not> isna (r ! j)"
      then obtain x where x: "x \<in> set (rows df)" "\<not> isna (x ! j)" by blast
      then have "x ! j \<in> set x" using r jw by simp
      then have "\<not> list_all isna x" using x(2) by (auto simp: list_all_iff)
      then show "\<exists>r \<in> set ?rs. \<not> isna (r ! j)" using x by auto
    qed
    finally show "j \<in> {j. j < length keep \<and> keep ! j} \<longleftrightarrow>
        j \<in> {j. \<exists>r \<in> set (rows df). \<not> isna (r ! j)}"
      using jw k by simp
  qed
  finally show ?thesis using cols by simp
qed

lemma isna_as_value: "isna (as_value c) \<longleftrightarrow> c = None"
  by (cases c) (simp_all add: isna_def as_value_def)

text \<open>The cell at position \<open>j\<close> of a row padded and cut to \<open>w\<close> cells.\<close>

lemma padded_nth:
  assumes "j < w"
  shows "take w (row @ replicate (w - length row) e) ! j = (if j < length row then row ! j else e)"
  using assms by (simp add: nth_append)

text \<open>
  C5, as stated, fails after cleaning: a column whose cells are all absent is removed.
  With header \<open>[A, B]\<close> and the one body row \<open>[x, None]\<close> the table kept has a single
  column and its row a single cell, under a header of width two.
\<close>

theorem clean_dataframe_drops_empty_column:
  "snd (convert_table_to_dataframe
      (no_rows(0 := [Some (ustr ''A''), Some (ustr ''B'')], 1 := [Some (ustr ''x''), None]))
      [0, 1]) = Some \<lparr>columns = [Some (ustr ''A'')], rows = [[PStr (ustr ''x'')]]\<rparr>"
  by (simp add: convert_table_to_dataframe_def Let_def truthy_def ustr_def pad_rows_eq
      clean_dataframe_def DataFrame_def dropna_rows_def dropna_columns_def map_values_def
      column_mask_def select_def isna_def as_value_def replace_empty_def strip_def isspace_def
      no_rows_def)

text \<open>
  A column that only the padding fills is kept: with header \<open>[A, B]\<close> and the body row
  \<open>[x]\<close> the row is padded to \<open>[x, '']\<close>, both columns hold a value when the empty columns
  are dropped, and the empty text becomes None afterwards.
\<close>

lemma clean_dataframe_keeps_padded_column:
  "snd (convert_table_to_dataframe
      (no_rows(0 := [Some (ustr ''A''), Some (ustr ''B'')], 1 := [Some (ustr ''x'')]))
      [0, 1]) =
   Some \<lparr>columns = [Some (ustr ''A''), Some (ustr ''B'')], rows = [[PStr (ustr ''x''), PNone]]\<rparr>"
  by (simp add: convert_table_to_dataframe_def Let_def truthy_def ustr_def pad_rows_eq
      clean_dataframe_def DataFrame_def dropna_rows_def dropna_columns_def map_values_def
      column_mask_def select_def isna_def as_value_def replace_empty_def strip_def isspace_def
      no_rows_def)

text \<open>
  C5, amended. Every row collected by the padding loop has exactly the header width
  \<open>W\<close>. In the table that \<open>_convert_table_to_dataframe\<close> returns all rows have one
  common width, the number of columns kept, which is at most \<open>W\<close>. The column at position
  \<open>j\<close> of the header is kept exactly when some body row with a non-empty cell has at
  position \<open>j\<close> a cell that is not None, or has no cell there at all (the padding then puts
  the empty text there, and cleaning looks for None before it turns empty texts into
  None). Canonicalizing the values afterwards changes no row's cell count.
\<close>

theorem row_width_after_cleaning:
  "(\<forall>r \<in> set (snd (pad_rows W as (h, []))). length r = W) \<and>
   (convert_table_to_dataframe h table = (h', Some df) \<longrightarrow>
      (\<forall>r \<in> set (rows df). length r = length (columns df)) \<and>
      length (columns df) \<le> length (h (hd table)) \<and>
      columns df =
        nths (h (hd table))
          {j. \<exists>a \<in> set (tl table).
                list_ex truthy (h a) \<and> (j < length (h a) \<longrightarrow> h a ! j \<noteq> None)}) \<and>
   map length (rows (convert_numeric_columns df)) = map length (rows df)"
proof (intro conjI impI)
  show "\<forall>r \<in> set (snd (pad_rows W as (h, []))). length r = W"
    by (auto simp: pad_rows_eq)
next
  assume a: "convert_table_to_dataframe h table = (h', Some df)"
  let ?hs = "h (hd table)"
  let ?rs = "filter (\<lambda>a. list_ex truthy (h a)) (tl table)"
  let ?data = "snd (pad_rows (length ?hs) ?rs (h, []))"
  from a have df: "df = clean_dataframe (DataFrame ?data ?hs)"
    by (auto simp: convert_table_to_dataframe_def Let_def split: if_splits prod.splits)
  have "\<forall>r \<in> set ?data. length r = length ?hs" by (auto simp: pad_rows_eq)
  then have w: "length (columns (DataFrame ?data ?hs)) = length ?hs"
    "\<forall>r \<in> set (rows (DataFrame ?data ?hs)). length r = length ?hs"
    by (simp_all add: DataFrame_def)
  from clean_dataframe_width [OF w]
  show "\<forall>r \<in> set (rows df). length r = length (columns df)"
    and "length (columns df) \<le> length (h (hd table))"
    unfolding df by blast+
  have "columns df =
      nths ?hs {j. \<exists>r \<in> set (rows (DataFrame ?data ?hs)). \<not> isna (r ! j)}"
    unfolding df using clean_dataframe_columns [OF w] by (simp add: DataFrame_def)
  also have "\<dots> = nths ?hs {j. \<exists>a \<in> set (tl table).
      list_ex truthy (h a) \<and> (j < length (h a) \<longrightarrow> h a ! j \<noteq> None)}"
  proof (rule nths_cong_below)
    fix j assume j: "j < length ?hs"
    define padded where
      "padded a = take (length ?hs) (h a @ replicate (length ?hs - length (h a)) (Some []))"
      for a
    have data: "?data = map padded ?rs" by (simp add: pad_rows_eq padded_def)
    have len: "length (padded a) = length ?hs" for a by (simp add: padded_def)
    have v: "map as_value (padded a) ! j = as_value (padded a ! j)" for a
      using j len [of a] by simp
    have "(\<exists>r \<in> set (rows (DataFrame ?data ?hs)). \<not> isna (r ! j)) \<longleftrightarrow>
        (\<exists>a \<in> set ?rs. \<not> isna (map as_value (padded a) ! j))"
      unfolding data by (simp add: DataFrame_def)
    also have "\<dots> \<longleftrightarrow> (\<exists>a \<in> set ?rs. padded a ! j \<noteq> None)"
      unfolding v isna_as_value ..
    also have "\<dots> \<longleftrightarrow> (\<exists>a \<in> set (tl table).
        list_ex truthy (h a) \<and> (j < length (h a) \<longrightarrow> h a ! j \<noteq> None))"
      unfolding padded_def padded_nth [OF j] by auto
    finally show "j \<in> {j. \<exists>r \<in> set (rows (DataFrame ?data ?hs)). \<not> isna (r ! j)} \<longleftrightarrow>
        j \<in> {j. \<exists>a \<in> set (tl table).
          list_ex truthy (h a) \<and> (j < length (h a) \<longrightarrow> h a ! j \<noteq> None)}"
      by simp
  qed
  finally show "columns df = nths ?hs {j. \<exists>a \<in> set (tl table).
      list_ex truthy (h a) \<and> (j < length (h a) \<longrightarrow> h a ! j \<noteq> None)}" .
next
  show "map length (rows (convert_numeric_columns df)) = map length (rows df)"
    by (simp add: convert_numeric_columns_def map_values_def)
qed

theorem row_width_after_cleaning_witness:
  "convert_table_to_dataframe
      (no_rows(0 := [Some (ustr ''Item''), Some (ustr ''2023''), Some (ustr ''2024'')],
               1 := [Some (ustr ''Share capital''), Some (ustr ''(100)''), Some (ustr ''50'')]))
      [0, 1] =
     (fst (convert_table_to_dataframe
      (no_rows(0 := [Some (ustr ''Item''), Some (ustr ''2023''), Some (ustr ''2024'')],
               1 := [Some (ustr ''Share capital''), Some (ustr ''(100)''), Some (ustr ''50'')]))
      [0, 1]),
      Some \<lparr>columns = [Some (ustr ''Item''), Some (ustr ''2023''), Some (ustr ''2024'')],
           rows = [[PStr (ustr ''Share capital''), PStr (ustr ''(100)''), PStr (ustr ''50'')]]\<rparr>) \<and>
   length [PStr (ustr ''Share capital''), PStr (ustr ''(100)''), PStr (ustr ''50'')] =
     length [Some (ustr ''Item''), Some (ustr ''2023''), Some (ustr ''2024'')]"
proof -
  let ?h = "no_rows(0 := [Some (ustr ''Item''), Some (ustr ''2023''), Some (ustr ''2024'')],
               1 := [Some (ustr ''Share capital''), Some (ustr ''(100)''), Some (ustr ''50'')])"
  let ?D = "\<lparr>columns = [Some (ustr ''Item''), Some (ustr ''2023''), Some (ustr ''2024'')],
           rows = [[PStr (ustr ''Share capital''), PStr (ustr ''(100)''), PStr (ustr ''50'')]]\<rparr>"
  have e: "convert_table_to_dataframe ?h [0, 1] =
      (fst (convert_table_to_dataframe ?h [0, 1]), Some ?D)"
    using scenario_dataframe by (metis prod.collapse)
  from row_width_after_cleaning [where h = ?h and table = "[0, 1]"
        and h' = "fst (convert_table_to_dataframe ?h [0, 1])" and df = ?D,
      THEN conjunct2, THEN conjunct1, THEN mp, OF e, THEN conjunct1]
  have "\<forall>r \<in> set (rows ?D). length r = length (columns ?D)" .
  then have "length [PStr (ustr ''Share capital''), PStr (ustr ''(100)''), PStr (ustr ''50'')] =
      length [Some (ustr ''Item''), Some (ustr ''2023''), Some (ustr ''2024'')]"
    by simp
  with e show ?thesis by (rule conjI)
qed

end
